theory Spec2Isabelle
  imports Complex_Main
begin

section \<open>Cells, strings and rounding\<close>

text \<open>
  A table cell of the pandas frame is either missing (NaN or None, what \<open>pd.isna\<close>
  accepts), a number, or a text. Numbers are modelled as exact rationals: a finite double
  is a rational, and the model computes with the decimal value it stands for; overflow to
  infinity and the binary rounding error of a double are outside the model. Strings are
  lists of 8-bit characters read as code points.
\<close>

datatype cell = Missing | Num rat | Txt string

definition is_space :: "char \<Rightarrow> bool" where
  "is_space c = (let n = of_char c :: nat in (9 \<le> n \<and> n \<le> 13) \<or> (28 \<le> n \<and> n \<le> 32) \<or> n = 133 \<or> n = 160)"

definition strip :: "string \<Rightarrow> string" where
  "strip s = rev (dropWhile is_space (rev (dropWhile is_space s)))"

definition lower_char :: "char \<Rightarrow> char" where
  "lower_char c = (let n = of_char c :: nat in if 65 \<le> n \<and> n \<le> 90 then char_of (n + 32) else c)"

definition upper_char :: "char \<Rightarrow> char" where
  "upper_char c = (let n = of_char c :: nat in if 97 \<le> n \<and> n \<le> 122 then char_of (n - 32) else c)"

definition lower :: "string \<Rightarrow> string" where
  "lower s = map lower_char s"

definition upper :: "string \<Rightarrow> string" where
  "upper s = map upper_char s"

text \<open>Python's \<open>round(x, 2)\<close>: the nearest multiple of 0.01, a tie going to the even one.\<close>

definition round_half_even :: "rat \<Rightarrow> int" where
  "round_half_even x =
     (let f = \<lfloor>x\<rfloor>; d = x - of_int f
      in if d < 1 / 2 then f else if 1 / 2 < d then f + 1 else if even f then f else f + 1)"

definition py_round2 :: "rat \<Rightarrow> rat" where
  "py_round2 x = of_int (round_half_even (x * 100)) / 100"

text \<open>
  The builtin \<open>float\<close> on a plain decimal literal: surrounding blanks, a sign, digits
  with at most one dot and one digit at least. It is all the amount parsers can hand to
  \<open>float\<close>, because they keep only a minus sign, digits and dots; exponents,
  underscores, \<open>inf\<close> and \<open>nan\<close> are not covered (\<open>None\<close>).
\<close>

definition is_digit :: "char \<Rightarrow> bool" where
  "is_digit c = (let n = of_char c :: nat in 48 \<le> n \<and> n \<le> 57)"

definition digit_val :: "char \<Rightarrow> int" where
  "digit_val c = of_char c - 48"

definition digits_value :: "string \<Rightarrow> int" where
  "digits_value s = foldl (\<lambda>a c. 10 * a + digit_val c) 0 s"

definition float_decimal :: "string \<Rightarrow> rat option" where
  "float_decimal s =
     (let t = strip s;
          neg = (t \<noteq> [] \<and> hd t = CHR ''-'');
          u = (if t \<noteq> [] \<and> (hd t = CHR ''-'' \<or> hd t = CHR ''+'') then tl t else t);
          ip = takeWhile (\<lambda>c. c \<noteq> CHR ''.'') u;
          fp = drop (Suc (length ip)) u
      in if list_all is_digit ip \<and> list_all is_digit fp \<and> ip @ fp \<noteq> []
         then Some ((if neg then - 1 else 1) * of_int (digits_value (ip @ fp)) / 10 ^ length fp)
         else None)"

section \<open>LedgerReconciler: \<open>calculate_difference_and_verify\<close>\<close>














text \<open>An amount with two decimals at most: what \<open>round(x, 2)\<close> returns.\<close>

definition is_cents :: "rat \<Rightarrow> bool" where
  "is_cents x = (\<exists>k::int. x = of_int k / 100)"







section \<open>AmountNormalizer: \<open>extract_amount\<close>, \<open>parse_balance\<close>, \<open>extract_amount_new\<close>\<close>

text \<open>
  The three amount parsers take a cell that is missing (\<open>None\<close>, where \<open>pd.isna\<close> holds)
  or a text, and return an amount or nothing (the source's \<open>""\<close> or NaN).
\<close>

definition contains :: "string \<Rightarrow> string \<Rightarrow> bool" where
  "contains sub s = (\<exists>i \<in> set [0 ..< Suc (length s)]. take (length sub) (drop i s) = sub)"

text \<open>\<open>re.sub(r'(cr|dr)', '', text, flags=re.I)\<close>: matches are taken left to right.\<close>

fun remove_crdr :: "string \<Rightarrow> string" where
  "remove_crdr (a # b # rest) =
     (if lower [a, b] = ''cr'' \<or> lower [a, b] = ''dr'' then remove_crdr rest
      else a # remove_crdr (b # rest))"
| "remove_crdr s = s"

definition is_numch :: "char \<Rightarrow> bool" where
  "is_numch c = (is_digit c \<or> c = CHR ''.'')"

text \<open>\<open>re.findall(r'[\d.]+', text)\<close> and its first element.\<close>

definition first_num :: "string \<Rightarrow> string option" where
  "first_num s = (let t = dropWhile (\<lambda>c. \<not> is_numch c) s in if t = [] then None else Some (takeWhile is_numch t))"

text \<open>\<open>re.findall(r'-?[\d.]+', text)\<close> and its first element.\<close>

fun first_signed_num :: "string \<Rightarrow> string option" where
  "first_signed_num [] = None"
| "first_signed_num (c # cs) =
     (if c = CHR ''-'' \<and> cs \<noteq> [] \<and> is_numch (hd cs) then Some (c # takeWhile is_numch cs)
      else if is_numch c then Some (takeWhile is_numch (c # cs))
      else first_signed_num cs)"

text \<open>\<open>s.split(sep)\<close> for a separator of one character.\<close>

fun split_on :: "char \<Rightarrow> string \<Rightarrow> string list" where
  "split_on sep [] = [[]]"
| "split_on sep (c # cs) =
     (case split_on sep cs of
        [] \<Rightarrow> [[c]]
      | p # ps \<Rightarrow> if c = sep then [] # p # ps else (c # p) # ps)"

text \<open>
  The dot handling that \<open>extract_amount\<close> and \<open>parse_balance\<close> share, from
  \<open>parts = raw.split('.')\<close> to the text handed to \<open>float\<close>.
\<close>

definition fix_dots :: "string \<Rightarrow> string" where
  "fix_dots raw =
     (let parts = split_on CHR ''.'' raw
      in if 2 < length parts then
           (if length (last parts) = 3 then concat parts
            else concat (butlast parts) @ ''.'' @ last parts)
         else if length parts = 2 \<and> 2 < length (parts ! 1) then
           (let digits = parts ! 0 @ parts ! 1
            in take (length digits - 2) digits @ ''.'' @ drop (length digits - 2) digits)
         else raw)"

definition extract_amount :: "string option \<Rightarrow> rat option" where
  "extract_amount v =
     (case v of
        None \<Rightarrow> None
      | Some s \<Rightarrow>
          let text = strip (lower s);
              is_negative = (CHR ''-'' \<in> set text);
              text = remove_crdr text;
              text = filter (\<lambda>c. c \<noteq> CHR '','' \<and> c \<noteq> CHR '' '') text
          in case first_num text of
               None \<Rightarrow> None
             | Some raw \<Rightarrow>
                 (case float_decimal (fix_dots raw) of
                    None \<Rightarrow> None
                  | Some amount \<Rightarrow> Some (if is_negative then - amount else amount)))"

definition parse_balance :: "string option \<Rightarrow> rat option" where
  "parse_balance v =
     (case v of
        None \<Rightarrow> None
      | Some s \<Rightarrow>
          let text = upper (strip s)
          in if text \<in> set ['''', ''NAN'', ''NONE''] then None
             else
               let is_dr = contains ''DR'' text;
                   is_cr = contains ''CR'' text;
                   text = remove_crdr text;
                   text = filter (\<lambda>c. c \<noteq> CHR '','' \<and> c \<noteq> CHR '' '') text
               in case first_signed_num text of
                    None \<Rightarrow> None
                  | Some raw \<Rightarrow>
                      (case float_decimal (fix_dots raw) of
                         None \<Rightarrow> None
                       | Some amount \<Rightarrow>
                           if amount < 0 then Some amount
                           else if is_dr then Some (- amount)
                           else Some amount))"

definition is_word :: "char \<Rightarrow> bool" where
  "is_word c = (let n = of_char c :: nat in
     (48 \<le> n \<and> n \<le> 57) \<or> (65 \<le> n \<and> n \<le> 90) \<or> (97 \<le> n \<and> n \<le> 122) \<or> n = 95)"

text \<open>
  \<open>re.sub(r'\b(cr|dr)\b', '', text, flags=re.IGNORECASE)\<close>; the flag says whether the
  character before the position is a word character.
\<close>

fun remove_crdr_word :: "bool \<Rightarrow> string \<Rightarrow> string" where
  "remove_crdr_word pw (a # b # rest) =
     (if \<not> pw \<and> (lower [a, b] = ''cr'' \<or> lower [a, b] = ''dr'') \<and> (rest = [] \<or> \<not> is_word (hd rest))
      then remove_crdr_word True rest
      else a # remove_crdr_word (is_word a) (b # rest))"
| "remove_crdr_word pw s = s"

text \<open>The text after the last dot: \<open>numeric_part[numeric_part.rfind('.') + 1:]\<close>.\<close>

definition after_last_dot :: "string \<Rightarrow> string" where
  "after_last_dot s = rev (takeWhile (\<lambda>c. c \<noteq> CHR ''.'') (rev s))"

text \<open>
  \<open>extract_amount_new\<close> in two steps. \<open>new_magnitude\<close> is the body after the sign has
  been read and removed, up to \<open>round(result, 2)\<close>; both branches of the source then
  return \<open>-result if is_negative else result\<close>.
\<close>

definition new_magnitude :: "string \<Rightarrow> rat option" where
  "new_magnitude text =
     (let numeric_part = filter is_numch text;
          clean_text = remove_crdr_word False text;
          clean_text = map (\<lambda>c. if c = CHR '':'' \<or> c = CHR '';'' then CHR ''.'' else c) clean_text;
          clean_text = filter (\<lambda>c. c \<noteq> CHR '','' \<and> c \<noteq> CHR '' '') clean_text;
          clean_text = filter is_numch clean_text
      in if clean_text = [] then None
         else if CHR ''.'' \<in> set numeric_part then
           (let digits_after_last_dot = length (filter is_digit (after_last_dot numeric_part));
                digits_only = filter (\<lambda>c. c \<noteq> CHR ''.'') clean_text
            in if digits_only \<noteq> [] then
                 (case float_decimal digits_only of
                    None \<Rightarrow> None
                  | Some f \<Rightarrow>
                      Some (py_round2 (if digits_after_last_dot = 1 then f / 10
                                       else if 2 \<le> digits_after_last_dot then f / 100
                                       else f)))
               else None)
         else
           (case float_decimal clean_text of
              None \<Rightarrow> None
            | Some f \<Rightarrow> Some (py_round2 f)))"

definition extract_amount_new :: "string option \<Rightarrow> rat option" where
  "extract_amount_new v =
     (case v of
        None \<Rightarrow> None
      | Some s \<Rightarrow>
          if s = '''' \<or> strip s = '''' then None
          else
            let text = strip s;
                is_negative = ((text \<noteq> [] \<and> hd text = CHR ''-'') \<or> CHR ''('' \<in> set text);
                text = (if is_negative then filter (\<lambda>c. c \<notin> set ''-()'') text else text)
            in case new_magnitude text of
                 None \<Rightarrow> None
               | Some result \<Rightarrow> Some (if is_negative then - result else result))"

text \<open>
  What \<open>parse_balance\<close> has in hand before its sign rule: whether the text holds \<open>DR\<close>,
  and the amount \<open>float(raw)\<close>.
\<close>

definition has_dr :: "string \<Rightarrow> bool" where
  "has_dr s = contains ''DR'' (upper (strip s))"

definition balance_amount :: "string \<Rightarrow> rat option" where
  "balance_amount s =
     (let text = upper (strip s)
      in if text \<in> set ['''', ''NAN'', ''NONE''] then None
         else case first_signed_num (filter (\<lambda>c. c \<noteq> CHR '','' \<and> c \<noteq> CHR '' '') (remove_crdr text)) of
                None \<Rightarrow> None
              | Some raw \<Rightarrow> float_decimal (fix_dots raw))"

text \<open>The sign test of \<open>extract_amount_new\<close>: \<open>text.startswith('-') or '(' in text\<close>.\<close>

definition new_is_negative :: "string \<Rightarrow> bool" where
  "new_is_negative s = (let text = strip s in (text \<noteq> [] \<and> hd text = CHR ''-'') \<or> CHR ''('' \<in> set text)"

text \<open>Segments of digits written with dots between them, as in \<open>4.54.554\<close>.\<close>

fun join_dots :: "string list \<Rightarrow> string" where
  "join_dots [] = []"
| "join_dots [s] = s"
| "join_dots (s # t # ss) = s @ ''.'' @ join_dots (t # ss)"

definition digit_segs :: "string list \<Rightarrow> bool" where
  "digit_segs segs = (\<forall>seg \<in> set segs. list_all is_digit seg)"

section \<open>DateTokenParser: \<open>normalize_month\<close>, \<open>parse_custom_date\<close>\<close>

text \<open>
  The month tables of the module. \<open>extended_month_map\<close> is built as the source builds it:
  every key of the merged dictionary is entered in upper case, in lower case and
  capitalized, a key met again keeping its first position.
\<close>

definition custom_month_map :: "(string \<times> string) list" where
  "custom_month_map =
     [(''JAN'', ''01''), (''AN'', ''01''), (''JA'', ''01''), (''JANUARY'', ''01''),
      (''FEB'', ''02''), (''FE'', ''02''), (''FB'', ''02''), (''FEBRUARY'', ''02''),
      (''MAR'', ''03''), (''MR'', ''03''), (''RCH'', ''03''), (''MARCH'', ''03''),
      (''APR'', ''04''), (''AP'', ''04''), (''APRIL'', ''04''),
      (''MAY'', ''05''), (''MY'', ''05''),
      (''JUN'', ''06''), (''JN'', ''06''), (''UN'', ''06''), (''JUNE'', ''06''),
      (''JUL'', ''07''), (''JL'', ''07''), (''UL'', ''07''), (''JULY'', ''07''), (''JU'', ''07''),
      (''AUG'', ''08''), (''AU'', ''08''), (''A0G'', ''08''), (''AUGUST'', ''08''),
      (''SEP'', ''09''), (''SE'', ''09''), (''SEPT'', ''09''), (''SEPTEMBER'', ''09''),
      (''OCT'', ''10''), (''OC'', ''10''), (''0CT'', ''10''), (''0ct'', ''10''), (''OCTOBER'', ''10''),
      (''NOV'', ''11''), (''NO'', ''11''), (''NOVEMBER'', ''11''),
      (''DEC'', ''12''), (''DE'', ''12''), (''DECEMBER'', ''12'')]"

definition full_month_names :: "(string \<times> string) list" where
  "full_month_names =
     [(''january'', ''01''), (''jan'', ''01''),
      (''february'', ''02''), (''feb'', ''02''),
      (''march'', ''03''), (''mar'', ''03''),
      (''april'', ''04''), (''apr'', ''04''),
      (''may'', ''05''),
      (''june'', ''06''), (''jun'', ''06''),
      (''july'', ''07''), (''jul'', ''07''),
      (''august'', ''08''), (''aug'', ''08''),
      (''september'', ''09''), (''sep'', ''09''), (''sept'', ''09''),
      (''october'', ''10''), (''oct'', ''10''),
      (''november'', ''11''), (''nov'', ''11''),
      (''december'', ''12''), (''dec'', ''12'')]"

text \<open>A dictionary store: the value of a key already there is replaced in place.\<close>

fun dict_set :: "string \<Rightarrow> string \<Rightarrow> (string \<times> string) list \<Rightarrow> (string \<times> string) list" where
  "dict_set k v [] = [(k, v)]"
| "dict_set k v (p # ps) = (if fst p = k then (k, v) # ps else p # dict_set k v ps)"

definition capitalize :: "string \<Rightarrow> string" where
  "capitalize s = (case s of [] \<Rightarrow> [] | c # cs \<Rightarrow> upper_char c # lower cs)"

definition extended_month_map :: "(string \<times> string) list" where
  "extended_month_map =
     foldl (\<lambda>m (k, v). dict_set (capitalize k) v (dict_set (lower k) v (dict_set (upper k) v m))) []
       (foldl (\<lambda>m (k, v). dict_set k v m) custom_month_map full_month_names)"

text \<open>
  The library calls the parser makes: \<open>difflib.get_close_matches\<close> with \<open>n=1\<close> and
  \<open>cutoff=0.6\<close>, and \<open>pd.to_datetime\<close> with and without \<open>dayfirst\<close>, which gives the
  day, month and year of a timestamp or nothing (NaT).
\<close>

record library =
  get_close_matches :: "string \<Rightarrow> string list \<Rightarrow> string list"
  to_datetime_dayfirst :: "string \<Rightarrow> (int \<times> int \<times> int) option"
  to_datetime :: "string \<Rightarrow> (int \<times> int \<times> int) option"

definition is_upper_letter :: "char \<Rightarrow> bool" where
  "is_upper_letter c = (let n = of_char c :: nat in 65 \<le> n \<and> n \<le> 90)"

definition is_letter :: "char \<Rightarrow> bool" where
  "is_letter c = (let n = of_char c :: nat in (65 \<le> n \<and> n \<le> 90) \<or> (97 \<le> n \<and> n \<le> 122))"

text \<open>
  \<open>normalize_month\<close>. A key the fuzzy match returns that the map does not hold is a
  \<open>KeyError\<close>, which the function's \<open>except\<close> turns into \<open>None\<close>.
\<close>

definition normalize_month :: "library \<Rightarrow> string \<Rightarrow> string option" where
  "normalize_month lib token0 =
     (if token0 = [] then None
      else
        let token = strip (upper token0);
            clean_token = filter is_upper_letter token
        in case map_of extended_month_map token of
             Some v \<Rightarrow> Some v
           | None \<Rightarrow>
               if clean_token \<noteq> [] \<and> map_of extended_month_map clean_token \<noteq> None
               then map_of extended_month_map clean_token
               else if 4 \<le> length token \<and> map_of extended_month_map (take 4 token) \<noteq> None
               then map_of extended_month_map (take 4 token)
               else if 3 \<le> length token \<and> map_of extended_month_map (take 3 token) \<noteq> None
               then map_of extended_month_map (take 3 token)
               else
                 (case get_close_matches lib token (map fst extended_month_map) of
                    m # _ \<Rightarrow> map_of extended_month_map m
                  | [] \<Rightarrow>
                      (case filter (\<lambda>(month_name, month_num). contains month_name token \<or> contains token month_name)
                              extended_month_map of
                         (_, month_num) # _ \<Rightarrow> Some month_num
                       | [] \<Rightarrow> None)))"

subsection \<open>Text helpers of the parser\<close>

definition span :: "(char \<Rightarrow> bool) \<Rightarrow> string \<Rightarrow> string \<times> string" where
  "span P s = (takeWhile P s, dropWhile P s)"

text \<open>The separator classes \<open>[-/\.]\<close> and \<open>[-/\s\.]\<close>.\<close>

definition is_sep1 :: "char \<Rightarrow> bool" where
  "is_sep1 c = (c = CHR ''-'' \<or> c = CHR ''/'' \<or> c = CHR ''.'')"

definition is_sep :: "char \<Rightarrow> bool" where
  "is_sep c = (is_sep1 c \<or> is_space c)"

text \<open>\<open>str.replace(old, new)\<close> for a non-empty \<open>old\<close>; the counter skips a replaced match.\<close>

fun replace_skip :: "string \<Rightarrow> string \<Rightarrow> nat \<Rightarrow> string \<Rightarrow> string" where
  "replace_skip old new k [] = []"
| "replace_skip old new (Suc k) (c # cs) = replace_skip old new k cs"
| "replace_skip old new 0 (c # cs) =
     (if old \<noteq> [] \<and> take (length old) (c # cs) = old
      then new @ replace_skip old new (length old - 1) cs
      else c # replace_skip old new 0 cs)"

definition replace_all :: "string \<Rightarrow> string \<Rightarrow> string \<Rightarrow> string" where
  "replace_all old new s = replace_skip old new 0 s"

text \<open>
  \<open>re.sub(r'\(.*?\)', '', s)\<close>: the accumulator holds the text kept and, after an open
  parenthesis, the text that a closing one would remove; a newline ends the attempt,
  since the dot does not match it.
\<close>

fun remove_parens :: "string \<Rightarrow> string option \<Rightarrow> string \<Rightarrow> string" where
  "remove_parens out None [] = out"
| "remove_parens out (Some buf) [] = out @ buf"
| "remove_parens out None (c # cs) =
     (if c = CHR ''('' then remove_parens out (Some [c]) cs else remove_parens (out @ [c]) None cs)"
| "remove_parens out (Some buf) (c # cs) =
     (if c = CHR '')'' then remove_parens out None cs
      else if c = CHR 0x0A then remove_parens (out @ buf @ [c]) None cs
      else remove_parens out (Some (buf @ [c])) cs)"

text \<open>\<open>re.sub(r'\s+', ' ', s)\<close>; the flag says that the run of blanks has begun.\<close>

fun collapse_ws :: "bool \<Rightarrow> string \<Rightarrow> string" where
  "collapse_ws inws [] = []"
| "collapse_ws inws (c # cs) =
     (if is_space c then (if inws then collapse_ws True cs else CHR '' '' # collapse_ws True cs)
      else c # collapse_ws False cs)"

definition month_corrections :: "(string \<times> string) list" where
  "month_corrections =
     [(''JULY'', ''JUL''), (''JANUARY'', ''JAN''), (''FEBRUARY'', ''FEB''),
      (''MARCH'', ''MAR''), (''APRIL'', ''APR''), (''JUNE'', ''JUN''),
      (''AUGUST'', ''AUG''), (''SEPTEMBER'', ''SEP''), (''SEPT'', ''SEP''),
      (''OCTOBER'', ''OCT''), (''NOVEMBER'', ''NOV''), (''DECEMBER'', ''DEC'')]"

text \<open>The cleaning of \<open>x_upper\<close> between the two mixed patterns and strategy 1.\<close>

definition clean_upper :: "string \<Rightarrow> string" where
  "clean_upper original_x =
     (let x = upper original_x;
          x = remove_parens [] None x;
          x = collapse_ws False x;
          x = replace_all ''A0G'' ''AUG'' (replace_all ''0CT'' ''OCT'' x);
          x = filter (\<lambda>c. c \<noteq> CHR 0x60 \<and> c \<noteq> CHR 0x27) x;
          x = filter (\<lambda>c. c \<notin> set ''[]{}'') x;
          x = foldl (\<lambda>x (wrong, correct). replace_all wrong correct x) x month_corrections
      in strip x)"

text \<open>Decimal digits of a number that is not negative, and \<open>f"{n:02d}"\<close>.\<close>

function str_int :: "int \<Rightarrow> string" where
  "str_int n = (if n < 10 then [char_of (48 + n)] else str_int (n div 10) @ [char_of (48 + n mod 10)])"
  by pat_completeness auto
termination
  by (relation "measure nat") auto

definition fmt2 :: "int \<Rightarrow> string" where
  "fmt2 n = (if 0 \<le> n \<and> n < 10 then CHR ''0'' # str_int n else str_int n)"

text \<open>The pivot for a year of two digits.\<close>

definition expand_year :: "string \<Rightarrow> string" where
  "expand_year year =
     (if length year = 2 then (if digits_value year \<le> 30 then ''20'' @ year else ''19'' @ year)
      else year)"

subsection \<open>The patterns of \<open>parse_custom_date\<close>\<close>

text \<open>
  Each pattern is a function that returns the groups of the match. The classes of digits,
  letters, separators and blanks are disjoint, so a greedy group that must be followed by
  a character of another class is the whole run of its class, and the match is unique.
\<close>

text \<open>\<open>re.search(r'(^|\D)00($|\D)', s)\<close>; \<open>prev\<close> says that the character before is a digit.\<close>

fun has_zero_day :: "bool \<Rightarrow> string \<Rightarrow> bool" where
  "has_zero_day prev (a # b # rest) =
     ((\<not> prev \<and> a = CHR ''0'' \<and> b = CHR ''0'' \<and> (rest = [] \<or> \<not> is_digit (hd rest)))
      \<or> has_zero_day (is_digit a) (b # rest))"
| "has_zero_day prev s = False"

text \<open>\<open>^\s*(\d+)\s+(\d{1,2})[-/\.](\d{1,2})[-/\.](\d{2,4})\s*$\<close>: day, month, year.\<close>

definition mixed_pattern1 :: "string \<Rightarrow> (string \<times> string \<times> string) option" where
  "mixed_pattern1 s =
     (let (prefix, r1) = span is_digit (dropWhile is_space s);
          (ws, r2) = span is_space r1;
          (day, r3) = span is_digit r2
      in if prefix = [] \<or> ws = [] \<or> length day < 1 \<or> 2 < length day then None
         else case r3 of
           [] \<Rightarrow> None
         | c1 # r4 \<Rightarrow>
             let (month, r5) = span is_digit r4
             in if \<not> is_sep1 c1 \<or> length month < 1 \<or> 2 < length month then None
                else case r5 of
                  [] \<Rightarrow> None
                | c2 # r6 \<Rightarrow>
                    let (year, r7) = span is_digit r6
                    in if \<not> is_sep1 c2 \<or> length year < 2 \<or> 4 < length year \<or> \<not> list_all is_space r7
                       then None
                       else Some (day, month, year))"

text \<open>\<open>^\s*(\d+)\s+(\d{1,2})[-/\.\s]+([A-Za-z]{3,9})[-/\.\s]+(\d{2,4})\s*$\<close>: day, month name, year.\<close>

definition mixed_pattern2 :: "string \<Rightarrow> (string \<times> string \<times> string) option" where
  "mixed_pattern2 s =
     (let (prefix, r1) = span is_digit (dropWhile is_space s);
          (ws, r2) = span is_space r1;
          (day, r3) = span is_digit r2;
          (sep1, r4) = span is_sep r3;
          (month_str, r5) = span is_letter r4;
          (sep2, r6) = span is_sep r5;
          (year, r7) = span is_digit r6
      in if prefix = [] \<or> ws = [] \<or> length day < 1 \<or> 2 < length day \<or> sep1 = []
            \<or> length month_str < 3 \<or> 9 < length month_str \<or> sep2 = []
            \<or> length year < 2 \<or> 4 < length year \<or> \<not> list_all is_space r7
         then None
         else Some (day, month_str, year))"

text \<open>\<open>(\d{1,2})[-/\s\.]+([A-Z]{3,9})[-/\s\.]+(\d{2,4})\<close> at the start: day, month name, year.\<close>

definition day_mon_year :: "string \<Rightarrow> (string \<times> string \<times> string) option" where
  "day_mon_year s =
     (let (day, r1) = span is_digit s;
          (sep1, r2) = span is_sep r1;
          (month_str, r3) = span is_letter r2;
          (sep2, r4) = span is_sep r3;
          (year_run, r5) = span is_digit r4
      in if length day < 1 \<or> 2 < length day \<or> sep1 = [] \<or> length month_str < 3 \<or> 9 < length month_str
            \<or> sep2 = [] \<or> length year_run < 2
         then None
         else Some (day, month_str, take 4 year_run))"

text \<open>\<open>([A-Z]{3,9})[-/\s\.]+(\d{1,2})[-/\s\.]+(\d{2,4})\<close> at the start: month name, day, year (given as day, month name, year).\<close>

definition mon_day_year :: "string \<Rightarrow> (string \<times> string \<times> string) option" where
  "mon_day_year s =
     (let (month_str, r1) = span is_letter s;
          (sep1, r2) = span is_sep r1;
          (day, r3) = span is_digit r2;
          (sep2, r4) = span is_sep r3;
          (year_run, r5) = span is_digit r4
      in if length month_str < 3 \<or> 9 < length month_str \<or> sep1 = [] \<or> length day < 1 \<or> 2 < length day
            \<or> sep2 = [] \<or> length year_run < 2
         then None
         else Some (day, month_str, take 4 year_run))"

text \<open>\<open>(\d{4})[-/\s\.]+(\d{1,2})[-/\s\.]+(\d{1,2})\<close> at the start: year, month, day (given as day, month, year).\<close>

definition year_month_day :: "string \<Rightarrow> (string \<times> string \<times> string) option" where
  "year_month_day s =
     (let (year, r1) = span is_digit s;
          (sep1, r2) = span is_sep r1;
          (month, r3) = span is_digit r2;
          (sep2, r4) = span is_sep r3;
          (day_run, r5) = span is_digit r4
      in if length year \<noteq> 4 \<or> sep1 = [] \<or> length month < 1 \<or> 2 < length month \<or> sep2 = []
            \<or> day_run = []
         then None
         else Some (take 2 day_run, month, year))"

text \<open>\<open>(\d{1,2})[-/\s\.]+(\d{1,2})[-/\s\.]+(\d{4})\<close> at the start: day, month, year.\<close>

definition day_month_year :: "string \<Rightarrow> (string \<times> string \<times> string) option" where
  "day_month_year s =
     (let (day, r1) = span is_digit s;
          (sep1, r2) = span is_sep r1;
          (month, r3) = span is_digit r2;
          (sep2, r4) = span is_sep r3;
          (year_run, r5) = span is_digit r4
      in if length day < 1 \<or> 2 < length day \<or> sep1 = [] \<or> length month < 1 \<or> 2 < length month
            \<or> sep2 = [] \<or> length year_run < 4
         then None
         else Some (day, month, take 4 year_run))"

text \<open>\<open>(\d{4})(\d{2})(\d{2})\<close> at the start: year, month, day (given as day, month, year).\<close>

definition compact8 :: "string \<Rightarrow> (string \<times> string \<times> string) option" where
  "compact8 s =
     (let run = takeWhile is_digit s
      in if length run < 8 then None
         else Some (take 2 (drop 6 run), take 2 (drop 4 run), take 4 run))"

text \<open>\<open>(\d{1,2})([A-Z]{3,9})(\d{2,4})\<close> at the start: day, month name, year.\<close>

definition compact_day_mon :: "string \<Rightarrow> (string \<times> string \<times> string) option" where
  "compact_day_mon s =
     (let (day, r1) = span is_digit s;
          (month_str, r2) = span is_letter r1;
          (year_run, r3) = span is_digit r2
      in if length day < 1 \<or> 2 < length day \<or> length month_str < 3 \<or> 9 < length month_str
            \<or> length year_run < 2
         then None
         else Some (day, month_str, take 4 year_run))"

text \<open>
  \<open>([A-Z]{3,9})(\d{1,2})(\d{2,4})\<close> at the start: month name, day, year (given as day,
  month name, year). The day takes two digits when the year keeps two at least, and one
  digit of a run of three.
\<close>

definition compact_mon_day :: "string \<Rightarrow> (string \<times> string \<times> string) option" where
  "compact_mon_day s =
     (let (month_str, r1) = span is_letter s;
          (run, r2) = span is_digit r1
      in if length month_str < 3 \<or> 9 < length month_str \<or> length run < 3 then None
         else if 4 \<le> length run then Some (take 2 run, month_str, take 4 (drop 2 run))
         else Some (take 1 run, month_str, drop 1 run))"

text \<open>\<open>strftime('%d/%m/%Y')\<close> and the formatted strings of the source.\<close>

definition format_date :: "int \<Rightarrow> int \<Rightarrow> string \<Rightarrow> string" where
  "format_date day month year = fmt2 day @ ''/'' @ fmt2 month @ ''/'' @ year"

definition strftime :: "int \<times> int \<times> int \<Rightarrow> string" where
  "strftime t = (case t of (d, m, y) \<Rightarrow> format_date d m (str_int y))"

text \<open>The common end of the branches that read a month name.\<close>

definition named_month_date :: "library \<Rightarrow> string \<Rightarrow> string \<Rightarrow> string \<Rightarrow> string option" where
  "named_month_date lib day month_str year =
     (case normalize_month lib month_str of
        None \<Rightarrow> None
      | Some month_num \<Rightarrow> Some (fmt2 (digits_value day) @ ''/'' @ month_num @ ''/'' @ expand_year year))"

definition pandas_fallback :: "library \<Rightarrow> string \<Rightarrow> string option" where
  "pandas_fallback lib original_x =
     (case to_datetime_dayfirst lib original_x of
        Some t \<Rightarrow> (if take 3 (strftime t) = ''00/'' then None else Some (strftime t))
      | None \<Rightarrow>
          (case to_datetime lib original_x of
             Some t \<Rightarrow> (if take 3 (strftime t) = ''00/'' then None else Some (strftime t))
           | None \<Rightarrow> None))"

text \<open>
  \<open>parse_custom_date\<close>. A missing cell is \<open>None\<close>. The patterns above give their
  groups as day, month, year whatever their order in the text. A branch with a month
  name that \<open>normalize_month\<close> does not resolve falls through to the next pattern, as
  in the source.
\<close>

definition try_named :: "library \<Rightarrow> (string \<times> string \<times> string) option \<Rightarrow> string option" where
  "try_named lib m =
     (case m of None \<Rightarrow> None | Some g \<Rightarrow> named_month_date lib (fst g) (fst (snd g)) (snd (snd g)))"

definition try_numeric :: "(string \<times> string \<times> string) option \<Rightarrow> string option" where
  "try_numeric m =
     (case m of None \<Rightarrow> None
      | Some g \<Rightarrow> Some (format_date (digits_value (fst g)) (digits_value (fst (snd g))) (snd (snd g))))"

definition strategy_3_4 :: "library \<Rightarrow> string \<Rightarrow> string \<Rightarrow> string option" where
  "strategy_3_4 lib original_x x_upper =
     (if length x_upper = 4 \<and> list_all is_digit x_upper then Some x_upper
      else pandas_fallback lib original_x)"

definition strategy_2 :: "library \<Rightarrow> string \<Rightarrow> string \<Rightarrow> string option" where
  "strategy_2 lib original_x x_upper =
     (let x_no_space = filter (\<lambda>c. \<not> is_space c) x_upper
      in case try_named lib (compact_day_mon x_no_space) of
           Some r \<Rightarrow> Some r
         | None \<Rightarrow>
             (case try_named lib (compact_mon_day x_no_space) of
                Some r \<Rightarrow> Some r
              | None \<Rightarrow> strategy_3_4 lib original_x x_upper))"

definition strategy_1_numeric :: "library \<Rightarrow> string \<Rightarrow> string \<Rightarrow> string option" where
  "strategy_1_numeric lib original_x x_upper =
     (case try_numeric (year_month_day x_upper) of
        Some r \<Rightarrow> Some r
      | None \<Rightarrow>
          (case try_numeric (day_month_year x_upper) of
             Some r \<Rightarrow> Some r
           | None \<Rightarrow>
               (case try_numeric (compact8 x_upper) of
                  Some r \<Rightarrow> Some r
                | None \<Rightarrow> strategy_2 lib original_x x_upper)))"

definition strategy_1 :: "library \<Rightarrow> string \<Rightarrow> string option" where
  "strategy_1 lib original_x =
     (let x_upper = clean_upper original_x
      in case try_named lib (day_mon_year x_upper) of
           Some r \<Rightarrow> Some r
         | None \<Rightarrow>
             (case try_named lib (mon_day_year x_upper) of
                Some r \<Rightarrow> Some r
              | None \<Rightarrow> strategy_1_numeric lib original_x x_upper))"

definition mixed_strings :: "library \<Rightarrow> string \<Rightarrow> string option" where
  "mixed_strings lib original_x =
     (case mixed_pattern1 original_x of
        Some g \<Rightarrow>
          Some (format_date (digits_value (fst g)) (digits_value (fst (snd g))) (expand_year (snd (snd g))))
      | None \<Rightarrow>
          (case mixed_pattern2 original_x of
             None \<Rightarrow> None
           | Some g \<Rightarrow> named_month_date lib (fst g) (upper (fst (snd g))) (snd (snd g))))"

definition parse_custom_date :: "library \<Rightarrow> string option \<Rightarrow> string option" where
  "parse_custom_date lib x =
     (case x of
        None \<Rightarrow> None
      | Some x0 \<Rightarrow>
          let original_x = strip x0
          in if original_x = [] then None
             else if has_zero_day False original_x then None
             else case mixed_strings lib original_x of
                    Some r \<Rightarrow> Some r
                  | None \<Rightarrow> strategy_1 lib original_x)"

text \<open>A library that finds nothing: no close match, and NaT from both \<open>to_datetime\<close> calls.\<close>

definition no_library :: library where
  "no_library = \<lparr>get_close_matches = (\<lambda>word keys. []), to_datetime_dayfirst = (\<lambda>s. None),
     to_datetime = (\<lambda>s. None)\<rparr>"

section \<open>ChronologyRepairer: dates as values\<close>

text \<open>
  The builtin \<open>int\<close> on a text: blanks around, a sign, digits with single underscores
  between them.
\<close>

fun underscores_ok :: "bool \<Rightarrow> string \<Rightarrow> bool" where
  "underscores_ok prev_digit [] = prev_digit"
| "underscores_ok prev_digit (c # cs) =
     (if is_digit c then underscores_ok True cs
      else c = CHR ''_'' \<and> prev_digit \<and> cs \<noteq> [] \<and> is_digit (hd cs) \<and> underscores_ok False cs)"

definition py_int :: "string \<Rightarrow> int option" where
  "py_int s =
     (let t = strip s;
          neg = (t \<noteq> [] \<and> hd t = CHR ''-'');
          u = (if t \<noteq> [] \<and> (hd t = CHR ''-'' \<or> hd t = CHR ''+'') then tl t else t)
      in if u \<noteq> [] \<and> is_digit (hd u) \<and> underscores_ok False u
         then Some ((if neg then - 1 else 1) * digits_value (filter is_digit u))
         else None)"

text \<open>\<open>day, month, year = map(int, s.split('/'))\<close>, \<open>None\<close> where it raises.\<close>

definition date_ints :: "string \<Rightarrow> (int \<times> int \<times> int) option" where
  "date_ints s =
     (case split_on CHR ''/'' s of
        [a, b, c] \<Rightarrow>
          (case py_int a of None \<Rightarrow> None
           | Some d \<Rightarrow>
               (case py_int b of None \<Rightarrow> None
                | Some m \<Rightarrow> (case py_int c of None \<Rightarrow> None | Some y \<Rightarrow> Some (d, m, y))))
      | _ \<Rightarrow> None)"

definition is_valid_date :: "string \<Rightarrow> bool" where
  "is_valid_date date_str =
     (if date_str = [] \<or> strip date_str = [] \<or> lower date_str = ''nan'' \<or> date_str = ''None'' then False
      else case date_ints (strip date_str) of
        None \<Rightarrow> False
      | Some (day, month, year) \<Rightarrow>
          if 1 \<le> day \<and> day \<le> 31 \<and> 1 \<le> month \<and> month \<le> 12 \<and> 1900 \<le> year \<and> year \<le> 2100 then
            (if month \<in> set [4, 6, 9, 11] \<and> 30 < day then False
             else if month = 2 then
               (if (year mod 4 = 0 \<and> year mod 100 \<noteq> 0) \<or> year mod 400 = 0 then \<not> 29 < day
                else \<not> 28 < day)
             else True)
          else False)"

text \<open>
  \<open>datetime(year, month, day)\<close> as the number of its day, for comparison and for
  \<open>timedelta\<close> steps, and the way back.
\<close>

definition days_from_civil :: "int \<Rightarrow> int \<Rightarrow> int \<Rightarrow> int" where
  "days_from_civil y m d =
     (let y' = (if m \<le> 2 then y - 1 else y);
          era = y' div 400;
          yoe = y' - era * 400;
          doy = (153 * (if 2 < m then m - 3 else m + 9) + 2) div 5 + d - 1;
          doe = yoe * 365 + yoe div 4 - yoe div 100 + doy
      in era * 146097 + doe - 719468)"

definition civil_from_days :: "int \<Rightarrow> int \<times> int \<times> int" where
  "civil_from_days z0 =
     (let z = z0 + 719468;
          era = z div 146097;
          doe = z - era * 146097;
          yoe = (doe - doe div 1460 + doe div 36524 - doe div 146096) div 365;
          doy = doe - (365 * yoe + yoe div 4 - yoe div 100);
          mp = (5 * doy + 2) div 153;
          d = doy - (153 * mp + 2) div 5 + 1;
          m = (if mp < 10 then mp + 3 else mp - 9);
          y = yoe + era * 400
      in (d, m, if m \<le> 2 then y + 1 else y))"

text \<open>The day number of a date string that \<open>is_valid_date\<close> accepts.\<close>

definition to_dt :: "string \<Rightarrow> int" where
  "to_dt s = (case date_ints s of Some (d, m, y) \<Rightarrow> days_from_civil y m d | None \<Rightarrow> 0)"

text \<open>\<open>(dt + timedelta(days=k)).strftime('%d/%m/%Y')\<close>.\<close>

definition shift_date :: "int \<Rightarrow> int \<Rightarrow> string" where
  "shift_date dt k = strftime (civil_from_days (dt + k))"

datatype date_order = Ascending | Descending

text \<open>
  \<open>is_date_in_order\<close>; a neighbour that was not found is \<open>None\<close>.
\<close>

definition usable :: "string option \<Rightarrow> bool" where
  "usable d = (case d of None \<Rightarrow> False | Some s \<Rightarrow> s \<noteq> [] \<and> is_valid_date s)"

definition is_date_in_order :: "string \<Rightarrow> string option \<Rightarrow> string option \<Rightarrow> date_order \<Rightarrow> bool" where
  "is_date_in_order date_str prev_date next_date order =
     (if \<not> is_valid_date date_str then False
      else
        let curr_dt = to_dt date_str
        in if usable prev_date \<and>
              ((order = Ascending \<and> curr_dt < to_dt (the prev_date))
               \<or> (order = Descending \<and> to_dt (the prev_date) < curr_dt))
           then False
           else if usable next_date \<and>
              ((order = Ascending \<and> to_dt (the next_date) < curr_dt)
               \<or> (order = Descending \<and> curr_dt < to_dt (the next_date)))
           then False
           else True)"

text \<open>
  \<open>get_date_order\<close> over the values of the date column: the valid dates, each text once
  at its first place, compared pair by pair and first against last.
\<close>

fun unique_valid :: "string list \<Rightarrow> string list \<Rightarrow> string list" where
  "unique_valid seen [] = []"
| "unique_valid seen (v # vs) =
     (if is_valid_date v \<and> v \<notin> set seen then v # unique_valid (v # seen) vs
      else unique_valid seen vs)"

fun count_pairs :: "int list \<Rightarrow> nat \<times> nat" where
  "count_pairs (a # b # rest) =
     (let (asc, desc) = count_pairs (b # rest)
      in if a \<le> b then (Suc asc, desc) else (asc, Suc desc))"
| "count_pairs xs = (0, 0)"

definition get_date_order :: "string list \<Rightarrow> date_order" where
  "get_date_order column =
     (let valid_dates_info = map to_dt (unique_valid [] column)
      in if length valid_dates_info < 2 then Ascending
         else
           let (asc0, desc0) = count_pairs valid_dates_info;
               first_le_last = (hd valid_dates_info \<le> last valid_dates_info);
               asc_matches = (if first_le_last then Suc asc0 else asc0);
               desc_matches = (if first_le_last then desc0 else Suc desc0)
           in if desc_matches \<le> asc_matches then Ascending else Descending)"

section \<open>ChronologyRepairer: \<open>date_correction\<close>\<close>

text \<open>
  A row of the frame: the cell of \<open>XN Date\<close>, the cell of the value-date column and the
  other cells. A date cell is \<open>None\<close> when missing. The frame says whether it has the
  two date columns; the fields of a column it does not have are not read.
\<close>

record drow =
  xn_date :: "string option"
  value_date :: "string option"
  others :: "cell list"

record frame =
  has_xn :: bool
  has_vd :: bool
  frows :: "drow list"

text \<open>\<open>str(v).strip() if pd.notna(v) else ""\<close>.\<close>

definition cell_text :: "string option \<Rightarrow> string" where
  "cell_text v = (case v of None \<Rightarrow> [] | Some s \<Rightarrow> strip s)"

definition empty_cell :: "cell \<Rightarrow> bool" where
  "empty_cell c = (case c of Missing \<Rightarrow> True | Num x \<Rightarrow> False | Txt s \<Rightarrow> strip s = [])"

text \<open>\<open>is_empty_row\<close> for a row of the frame.\<close>

definition is_empty_row :: "frame \<Rightarrow> drow \<Rightarrow> bool" where
  "is_empty_row df r =
     ((has_xn df \<longrightarrow> cell_text (xn_date r) = [])
      \<and> (has_vd df \<longrightarrow> cell_text (value_date r) = [])
      \<and> list_all empty_cell (others r))"

text \<open>The row at \<open>idx\<close> when the \<open>XN Date\<close> column holds the text \<open>d\<close> there.\<close>

definition empty_with :: "frame \<Rightarrow> string list \<Rightarrow> nat \<Rightarrow> bool" where
  "empty_with df dates idx = is_empty_row df ((frows df ! idx)\<lparr>xn_date := Some (dates ! idx)\<rparr>)"

text \<open>The nearest valid date above and below a position of \<open>corrected_dates\<close>.\<close>

definition prev_valid :: "string list \<Rightarrow> nat \<Rightarrow> string option" where
  "prev_valid dates idx = List.find is_valid_date (rev (take idx dates))"

definition next_valid :: "string list \<Rightarrow> nat \<Rightarrow> string option" where
  "next_valid dates idx = List.find is_valid_date (drop (Suc idx) dates)"

text \<open>The strict rule: the dates above and below are both there and are the same text.\<close>

definition same_neighbours :: "string option \<Rightarrow> string option \<Rightarrow> bool" where
  "same_neighbours prev_date next_date = (prev_date \<noteq> None \<and> next_date \<noteq> None \<and> prev_date = next_date)"

text \<open>
  Strategy 1 of the repair: the value date of the row, parsed, when it is valid and in
  order between the neighbours.
\<close>

definition value_date_candidate ::
  "library \<Rightarrow> frame \<Rightarrow> nat \<Rightarrow> string option \<Rightarrow> string option \<Rightarrow> date_order \<Rightarrow> string option" where
  "value_date_candidate lib df idx prev_date next_date order =
     (if \<not> has_vd df then None
      else
        let value_date_str = cell_text (value_date (frows df ! idx))
        in if value_date_str = [] then None
           else case parse_custom_date lib (Some value_date_str) of
             None \<Rightarrow> None
           | Some parsed_value \<Rightarrow>
               if parsed_value \<noteq> [] \<and> is_valid_date parsed_value
                  \<and> is_date_in_order parsed_value prev_date next_date order
               then Some parsed_value else None)"

text \<open>Strategy 2 of the repair: a date predicted from the neighbours.\<close>

definition predict_ascending :: "string \<Rightarrow> string option \<Rightarrow> string option \<Rightarrow> string option" where
  "predict_ascending current_date prev_date next_date =
     (case prev_date of
        Some p \<Rightarrow>
          (let prev_dt = to_dt p
           in case next_date of
             Some n \<Rightarrow>
               (let next_dt = to_dt n; current_dt = to_dt current_date
                in if prev_dt < next_dt then
                     (if current_dt < prev_dt then Some (shift_date prev_dt 1)
                      else if next_dt < current_dt then Some (shift_date next_dt (- 1))
                      else if current_dt = prev_dt then
                        (if p \<noteq> n then Some (shift_date prev_dt 1) else Some p)
                      else
                        (let total_days = next_dt - prev_dt
                         in if 0 < total_days \<and> total_days \<le> 100
                            then Some (shift_date prev_dt (total_days div 2))
                            else if p \<noteq> n then Some (shift_date prev_dt 1) else Some p))
                   else if p \<noteq> n then Some (shift_date prev_dt 1) else Some p)
           | None \<Rightarrow> Some (shift_date prev_dt 1))
      | None \<Rightarrow>
          (case next_date of
             Some n \<Rightarrow> Some (shift_date (to_dt n) (- 1))
           | None \<Rightarrow> None))"

definition predict_descending :: "string \<Rightarrow> string option \<Rightarrow> string option \<Rightarrow> string option" where
  "predict_descending current_date prev_date next_date =
     (case next_date of
        Some n \<Rightarrow>
          (let next_dt = to_dt n
           in case prev_date of
             Some p \<Rightarrow>
               (let prev_dt = to_dt p; current_dt = to_dt current_date
                in if next_dt < prev_dt then
                     (if prev_dt < current_dt then Some (shift_date prev_dt (- 1))
                      else if current_dt < next_dt then Some (shift_date next_dt 1)
                      else if current_dt = prev_dt then
                        (if p \<noteq> n then Some (shift_date prev_dt (- 1)) else Some p)
                      else
                        (let total_days = prev_dt - next_dt
                         in if 0 < total_days \<and> total_days \<le> 100
                            then Some (shift_date next_dt (total_days div 2))
                            else if p \<noteq> n then Some (shift_date next_dt 1) else Some n))
                   else if p \<noteq> n then Some (shift_date next_dt 1) else Some n)
           | None \<Rightarrow> Some (shift_date next_dt 1))
      | None \<Rightarrow>
          (case prev_date of
             Some p \<Rightarrow> Some (shift_date (to_dt p) (- 1))
           | None \<Rightarrow> None))"

text \<open>
  One row of one pass of step 3. The state is \<open>corrected_dates\<close> and \<open>made_correction\<close>;
  \<open>df_dates\<close> is the date column of the frame, which changes between passes only.
\<close>

definition repair_row ::
  "library \<Rightarrow> frame \<Rightarrow> string list \<Rightarrow> date_order \<Rightarrow> nat \<Rightarrow> string list \<times> bool \<Rightarrow> string list \<times> bool" where
  "repair_row lib df df_dates order idx st =
     (let corrected_dates = fst st;
          current_date = corrected_dates ! idx
      in if empty_with df df_dates idx then st
         else if current_date = [] then st
         else if \<not> is_valid_date current_date then st
         else
           let prev_date = prev_valid corrected_dates idx;
               next_date = next_valid corrected_dates idx
           in if is_date_in_order current_date prev_date next_date order then st
              else
                let candidate =
                      (if same_neighbours prev_date next_date then prev_date
                       else case value_date_candidate lib df idx prev_date next_date order of
                         Some c \<Rightarrow> Some c
                       | None \<Rightarrow>
                           (if order = Ascending then predict_ascending current_date prev_date next_date
                            else predict_descending current_date prev_date next_date))
                in case candidate of
                     None \<Rightarrow> (corrected_dates, True)
                   | Some c \<Rightarrow>
                       if c \<noteq> [] \<and> is_valid_date c \<and> is_date_in_order c prev_date next_date order
                       then (corrected_dates[idx := c], True)
                       else (corrected_dates, True))"

definition repair_pass :: "library \<Rightarrow> frame \<Rightarrow> date_order \<Rightarrow> string list \<Rightarrow> string list \<times> bool" where
  "repair_pass lib df order df_dates =
     fold (repair_row lib df df_dates order) [0 ..< length df_dates] (df_dates, False)"

text \<open>Step 3: five passes at most, ended by a pass without a correction.\<close>

fun repair_loop :: "nat \<Rightarrow> library \<Rightarrow> frame \<Rightarrow> date_order \<Rightarrow> string list \<Rightarrow> string list" where
  "repair_loop 0 lib df order df_dates = df_dates"
| "repair_loop (Suc k) lib df order df_dates =
     (let (corrected_dates, made_correction) = repair_pass lib df order df_dates
      in if made_correction then repair_loop k lib df order corrected_dates else corrected_dates)"

subsection \<open>Step 4: runs of rows without a valid date\<close>

text \<open>\<open>create_date_list_through_backtracking\<close>: the dates of a list of offsets from a day.\<close>

definition dated :: "int \<Rightarrow> (nat \<times> int) list \<Rightarrow> (nat \<times> string) list" where
  "dated base_dt offsets =
     filter (\<lambda>(idx, new_date). is_valid_date new_date)
       (map (\<lambda>(idx, k). (idx, shift_date base_dt k)) offsets)"

text \<open>Offsets \<open>1, 2, 3, ...\<close> times \<open>sign\<close> for the rows in the order given.\<close>

definition unit_steps :: "int \<Rightarrow> nat list \<Rightarrow> (nat \<times> int) list" where
  "unit_steps sign idxs = map (\<lambda>(i, idx). (idx, sign * (int i + 1))) (enumerate 0 idxs)"

text \<open>
  Even spacing: \<open>int((i + 1) * step_size)\<close> with \<open>step_size = total_days / (len + 1)\<close>,
  computed exactly.
\<close>

definition even_steps :: "int \<Rightarrow> int \<Rightarrow> nat list \<Rightarrow> (nat \<times> int) list" where
  "even_steps sign total_days idxs =
     map (\<lambda>(i, idx). (idx, sign * \<lfloor>(of_int (int i + 1) :: rat) * (of_int total_days / of_int (int (length idxs) + 1))\<rfloor>))
       (enumerate 0 idxs)"

text \<open>Offsets that accumulate \<open>sign * (idx - any_valid_idx)\<close> row after row.\<close>

fun cumulative_steps :: "int \<Rightarrow> int \<Rightarrow> int \<Rightarrow> nat list \<Rightarrow> (nat \<times> int) list" where
  "cumulative_steps sign anchor acc [] = []"
| "cumulative_steps sign anchor acc (idx # idxs) =
     (let acc' = acc + sign * (int idx - anchor)
      in (idx, acc') # cumulative_steps sign anchor acc' idxs)"

definition first_valid_index :: "string list \<Rightarrow> nat option" where
  "first_valid_index dates =
     (case filter (\<lambda>i. is_valid_date (dates ! i)) [0 ..< length dates] of [] \<Rightarrow> None | i # _ \<Rightarrow> Some i)"

definition create_date_list_through_backtracking ::
  "frame \<Rightarrow> string list \<Rightarrow> nat list \<Rightarrow> date_order \<Rightarrow> (nat \<times> string) list" where
  "create_date_list_through_backtracking df df_dates missing_indices order =
     (if missing_indices = [] then []
      else
        let before_date = prev_valid df_dates (hd missing_indices);
            after_date = next_valid df_dates (last missing_indices);
            results = (if has_vd df then
                         filter (\<lambda>(idx, value_date_str). value_date_str \<noteq> [] \<and> is_valid_date value_date_str
                                   \<and> is_date_in_order value_date_str before_date after_date order)
                           (map (\<lambda>idx. (idx, cell_text (value_date (frows df ! idx)))) missing_indices)
                       else []);
            value_dates_found = map fst results
        in if length results = length missing_indices then results
           else
             let remaining_indices = filter (\<lambda>idx. idx \<notin> set value_dates_found) missing_indices
             in if remaining_indices = [] then results
                else case before_date of
                  Some b \<Rightarrow>
                    (let before_dt = to_dt b
                     in case after_date of
                       Some a \<Rightarrow>
                         (let after_dt = to_dt a
                          in if order = Ascending then
                               (let total_days = after_dt - before_dt
                                in if 0 < total_days
                                   then results @ dated before_dt (even_steps 1 total_days remaining_indices)
                                   else results @ dated before_dt (unit_steps 1 remaining_indices))
                             else
                               (let total_days = before_dt - after_dt
                                in if 0 < total_days
                                   then results @ dated before_dt (even_steps (- 1) total_days remaining_indices)
                                   else results @ dated before_dt (unit_steps (- 1) remaining_indices)))
                     | None \<Rightarrow>
                         results @ dated before_dt
                           (unit_steps (if order = Ascending then 1 else - 1) remaining_indices))
                | None \<Rightarrow>
                    (case after_date of
                       Some a \<Rightarrow>
                         results @ dated (to_dt a)
                           (unit_steps (if order = Ascending then - 1 else 1) (rev remaining_indices))
                     | None \<Rightarrow>
                         (case first_valid_index df_dates of
                            None \<Rightarrow> results
                          | Some any_valid_idx \<Rightarrow>
                              if any_valid_idx < hd remaining_indices
                              then results @ dated (to_dt (df_dates ! any_valid_idx))
                                     (cumulative_steps (if order = Ascending then 1 else - 1)
                                        (int any_valid_idx) 0 remaining_indices)
                              else results @ dated (to_dt (df_dates ! any_valid_idx))
                                     (cumulative_steps (if order = Ascending then 1 else - 1)
                                        (int any_valid_idx) 0 (rev remaining_indices)))))"

text \<open>Runs of consecutive positions, in order.\<close>

fun group_runs :: "nat list \<Rightarrow> nat list \<Rightarrow> nat list list" where
  "group_runs current_group [] = (if current_group = [] then [] else [current_group])"
| "group_runs current_group (idx # idxs) =
     (if current_group = [] \<or> idx = last current_group + 1 then group_runs (current_group @ [idx]) idxs
      else current_group # group_runs [idx] idxs)"

text \<open>The value dates of a run, read against \<open>corrected_dates\<close> as it is before the run.\<close>

definition group_value_dates ::
  "library \<Rightarrow> frame \<Rightarrow> date_order \<Rightarrow> string list \<Rightarrow> nat list \<Rightarrow> (nat \<times> string) list" where
  "group_value_dates lib df order corrected_dates grp =
     (if \<not> has_vd df then []
      else concat (map (\<lambda>idx.
        let value_date_str = cell_text (value_date (frows df ! idx))
        in if value_date_str = [] then []
           else case parse_custom_date lib (Some value_date_str) of
             None \<Rightarrow> []
           | Some parsed_value \<Rightarrow>
               if parsed_value \<noteq> [] \<and> is_valid_date parsed_value then
                 (let prev_date = prev_valid corrected_dates idx;
                      next_date = next_valid corrected_dates idx
                  in if same_neighbours prev_date next_date then [(idx, the prev_date)]
                     else if is_date_in_order parsed_value prev_date next_date order then [(idx, parsed_value)]
                     else [])
               else []) grp))"

text \<open>The shared-neighbour rule over the rows of a run still without a date.\<close>

definition shared_neighbour_row :: "nat \<Rightarrow> string list \<times> nat list \<Rightarrow> string list \<times> nat list" where
  "shared_neighbour_row idx st =
     (let corrected_dates = fst st;
          prev_date = prev_valid corrected_dates idx;
          next_date = next_valid corrected_dates idx
      in if same_neighbours prev_date next_date
         then (corrected_dates[idx := the prev_date], removeAll idx (snd st))
         else st)"

definition apply_backtrack_row :: "nat \<times> string \<Rightarrow> string list \<Rightarrow> string list" where
  "apply_backtrack_row p corrected_dates =
     (let row_idx = fst p; new_date = snd p
      in if is_valid_date new_date then
           (let prev_date = prev_valid corrected_dates row_idx;
                next_date = next_valid corrected_dates row_idx
            in if same_neighbours prev_date next_date then corrected_dates[row_idx := the prev_date]
               else corrected_dates[row_idx := new_date])
         else corrected_dates)"

definition repair_group ::
  "library \<Rightarrow> frame \<Rightarrow> string list \<Rightarrow> date_order \<Rightarrow> nat list \<Rightarrow> string list \<Rightarrow> string list" where
  "repair_group lib df df_dates order grp corrected_dates0 =
     (let date_list = group_value_dates lib df order corrected_dates0 grp;
          corrected_dates = fold (\<lambda>(row_idx, new_date) cd. cd[row_idx := new_date]) date_list corrected_dates0;
          remaining_in_group = filter (\<lambda>idx. \<not> is_valid_date (corrected_dates ! idx)) grp
      in if remaining_in_group = [] then corrected_dates
         else
           let (corrected_dates, remaining_in_group) =
                 fold shared_neighbour_row remaining_in_group (corrected_dates, remaining_in_group)
           in if remaining_in_group = [] then corrected_dates
              else fold apply_backtrack_row
                     (create_date_list_through_backtracking df df_dates remaining_in_group order)
                     corrected_dates)"

definition repair_runs :: "library \<Rightarrow> frame \<Rightarrow> date_order \<Rightarrow> string list \<Rightarrow> string list" where
  "repair_runs lib df order df_dates =
     (let remaining_invalid =
            filter (\<lambda>idx. \<not> empty_with df df_dates idx \<and> \<not> is_valid_date (df_dates ! idx))
              [0 ..< length df_dates]
      in fold (repair_group lib df df_dates order) (group_runs [] remaining_invalid) df_dates)"

subsection \<open>The final verification pass and \<open>date_correction\<close>\<close>

definition verify_row :: "frame \<Rightarrow> string list \<Rightarrow> date_order \<Rightarrow> nat \<Rightarrow> string list \<Rightarrow> string list" where
  "verify_row df df_dates order idx corrected_dates =
     (let current_date = corrected_dates ! idx
      in if empty_with df df_dates idx then corrected_dates
         else if current_date = [] \<or> \<not> is_valid_date current_date then corrected_dates
         else
           let prev_date = prev_valid corrected_dates idx;
               next_date = next_valid corrected_dates idx
           in if is_date_in_order current_date prev_date next_date order then corrected_dates
              else if same_neighbours prev_date next_date then corrected_dates[idx := the prev_date]
              else if order = Ascending then
                (case prev_date of
                   Some p \<Rightarrow> corrected_dates[idx := shift_date (to_dt p) 1]
                 | None \<Rightarrow> corrected_dates)
              else
                (case next_date of
                   Some n \<Rightarrow> corrected_dates[idx := shift_date (to_dt n) 1]
                 | None \<Rightarrow> corrected_dates))"

definition verify_pass :: "frame \<Rightarrow> date_order \<Rightarrow> string list \<Rightarrow> string list" where
  "verify_pass df order df_dates = fold (verify_row df df_dates order) [0 ..< length df_dates] df_dates"

text \<open>Writing the date column back: \<open>df['XN Date'] = dates\<close>.\<close>

definition set_dates :: "frame \<Rightarrow> string list \<Rightarrow> frame" where
  "set_dates df dates = df\<lparr>frows := map (\<lambda>(r, d). r\<lparr>xn_date := Some d\<rparr>) (zip (frows df) dates)\<rparr>"

text \<open>Step 1: the parsed date of every row, the empty text for an empty row.\<close>

definition parsed_dates :: "library \<Rightarrow> frame \<Rightarrow> string list" where
  "parsed_dates lib df =
     map (\<lambda>r. if is_empty_row df r then []
              else case parse_custom_date lib (Some (cell_text (xn_date r))) of
                     None \<Rightarrow> []
                   | Some parsed \<Rightarrow> parsed)
       (frows df)"

definition date_correction :: "library \<Rightarrow> frame \<Rightarrow> frame \<times> date_order" where
  "date_correction lib df0 =
     (if \<not> has_xn df0 then (df0, Ascending)
      else
        let dates1 = parsed_dates lib df0;
            df = set_dates df0 dates1;
            order = get_date_order dates1;
            dates3 = repair_loop 5 lib df order dates1;
            dates4 = repair_runs lib df order dates3;
            dates5 = verify_pass df order dates4
        in (set_dates df dates5, get_date_order dates5))"

section \<open>ChronologyRepairer: year drift, rotation, \<open>process_all_dates\<close>\<close>

definition pattern_order :: "string list \<Rightarrow> date_order" where
  "pattern_order dates =
     (let valid_dates_info = map to_dt (filter is_valid_date dates);
          (asc0, desc0) = count_pairs valid_dates_info;
          first_le_last = (hd valid_dates_info \<le> last valid_dates_info);
          asc_count = (if first_le_last then Suc asc0 else asc0);
          desc_count = (if first_le_last then desc0 else Suc desc0)
      in if desc_count \<le> asc_count then Ascending else Descending)"

definition fix_year_row :: "frame \<Rightarrow> date_order \<Rightarrow> nat \<Rightarrow> string list \<Rightarrow> string list" where
  "fix_year_row df order i corrected_dates =
     (if \<not> is_valid_date (corrected_dates ! i) then corrected_dates
      else case date_ints (corrected_dates ! i) of
        None \<Rightarrow> corrected_dates
      | Some (day, month, year) \<Rightarrow>
          let prev_date = prev_valid corrected_dates i;
              next_date = next_valid corrected_dates i;
              value_date_str = (if has_vd df then cell_text (value_date (frows df ! i)) else []);
              v_year = (if value_date_str \<noteq> [] \<and> is_valid_date value_date_str
                        then map_option (\<lambda>(v_day, v_month, v_year). v_year) (date_ints value_date_str)
                        else None);
              by_value = (case v_year of
                            None \<Rightarrow> None
                          | Some vy \<Rightarrow>
                              if vy \<noteq> year \<and> is_date_in_order (format_date day month (str_int vy))
                                    prev_date next_date order
                              then Some (format_date day month (str_int vy)) else None)
          in case by_value of
               Some test_date \<Rightarrow> corrected_dates[i := test_date]
             | None \<Rightarrow>
                 (case prev_date of
                    Some p \<Rightarrow>
                      (case date_ints p of
                         Some (p_day, p_month, p_year) \<Rightarrow>
                           if order = Ascending \<and> year < p_year \<and> \<bar>year - p_year\<bar> \<le> 5
                              \<and> is_date_in_order (format_date day month (str_int p_year)) prev_date next_date order
                           then corrected_dates[i := format_date day month (str_int p_year)]
                           else corrected_dates
                       | None \<Rightarrow> corrected_dates)
                  | None \<Rightarrow> corrected_dates))"

definition fix_chronological_year_issues :: "frame \<Rightarrow> frame" where
  "fix_chronological_year_issues df =
     (if \<not> has_xn df then df
      else
        let dates = map (\<lambda>r. cell_text (xn_date r)) (frows df)
        in if length (filter is_valid_date dates) < 2 then df
           else set_dates df (fold (fix_year_row df (pattern_order dates)) [0 ..< length dates] dates))"

definition rotate_if_descending :: "frame \<Rightarrow> date_order \<Rightarrow> frame \<times> date_order" where
  "rotate_if_descending df order =
     (if order = Descending then (df\<lparr>frows := rev (frows df)\<rparr>, Ascending) else (df, order))"

text \<open>
  \<open>process_all_dates\<close>, with the direction that its last assignment to \<open>date_order\<close>
  leaves; the function of the source returns the frame alone.
\<close>

definition parse_columns :: "library \<Rightarrow> frame \<Rightarrow> frame" where
  "parse_columns lib df =
     df\<lparr>frows := map (\<lambda>r. r\<lparr>xn_date := (if has_xn df then parse_custom_date lib (xn_date r) else xn_date r),
                           value_date := (if has_vd df then parse_custom_date lib (value_date r) else value_date r)\<rparr>)
                     (frows df)\<rparr>"

definition drop_value_date :: "frame \<Rightarrow> frame" where
  "drop_value_date df = df\<lparr>has_vd := False, frows := map (\<lambda>r. r\<lparr>value_date := None\<rparr>) (frows df)\<rparr>"

definition repair :: "library \<Rightarrow> frame \<Rightarrow> frame \<times> date_order" where
  "repair lib df0 =
     (if \<not> has_xn df0 \<and> \<not> has_vd df0 then (df0, Ascending)
      else
        let df = parse_columns lib df0;
            (df, date_order) = date_correction lib df;
            (df, date_order) = rotate_if_descending df date_order;
            df = fix_chronological_year_issues df
        in (drop_value_date df, date_order))"

definition process_all_dates :: "library \<Rightarrow> frame \<Rightarrow> frame" where
  "process_all_dates lib df = fst (repair lib df)"

section \<open>Shapes of parsed dates and example ledgers\<close>

text \<open>
  The shape \<open>DD/MM/Y...\<close> with a year of \<open>k\<close> digits; \<open>DD/MM/YYYY\<close> is the shape with
  \<open>k = 4\<close>. A bare year is four digits and nothing else.
\<close>

definition date_shape_y :: "nat \<Rightarrow> string \<Rightarrow> bool" where
  "date_shape_y k s =
     (length s = 6 + k \<and> list_all is_digit (take 2 s) \<and> take 1 (drop 2 s) = ''/''
      \<and> list_all is_digit (take 2 (drop 3 s)) \<and> take 1 (drop 5 s) = ''/''
      \<and> list_all is_digit (drop 6 s))"

definition date_shape :: "string \<Rightarrow> bool" where
  "date_shape s = date_shape_y 4 s"

definition bare_year :: "string \<Rightarrow> bool" where
  "bare_year s = (length s = 4 \<and> list_all is_digit s)"

text \<open>A ledger with the date column alone among the date columns, one text cell per row.\<close>

definition dated_rows :: "string list \<Rightarrow> frame" where
  "dated_rows ds = \<lparr>has_xn = True, has_vd = False,
     frows = map (\<lambda>d. \<lparr>xn_date = Some d, value_date = None, others = [Txt ''x'']\<rparr>) ds\<rparr>"

definition zigzag_ledger :: frame where
  "zigzag_ledger = dated_rows [''20/01/2024'', ''10/01/2024'', ''08/01/2024'', ''13/01/2024'', ''11/01/2024'']"

definition descending_ledger :: frame where
  "descending_ledger = \<lparr>has_xn = True, has_vd = False,
     frows = [\<lparr>xn_date = Some ''03/01/2024'', value_date = None, others = [Txt ''c'']\<rparr>,
              \<lparr>xn_date = Some ''02/01/2024'', value_date = None, others = [Txt ''b'']\<rparr>,
              \<lparr>xn_date = Some ''01/01/2024'', value_date = None, others = [Txt ''a'']\<rparr>]\<rparr>"

section \<open>The reconciler: rounding and the two loops\<close>

lemma round_half_even_of_int: "round_half_even (of_int k) = k"
  by (simp add: round_half_even_def)

lemma py_round2_cents: "is_cents (py_round2 x)"
  by (auto simp: is_cents_def py_round2_def)

lemma py_round2_id: "is_cents x \<Longrightarrow> py_round2 x = x"
  by (auto simp: is_cents_def py_round2_def round_half_even_of_int)

lemma py_round2_idem: "py_round2 (py_round2 x) = py_round2 x"
  by (rule py_round2_id [OF py_round2_cents])

lemma is_cents_add: "is_cents x \<Longrightarrow> is_cents y \<Longrightarrow> is_cents (x + y)"
proof -
  assume "is_cents x" "is_cents y"
  then obtain a b :: int where "x = of_int a / 100" "y = of_int b / 100"
    by (auto simp: is_cents_def)
  then have "x + y = of_int (a + b) / 100" by (simp add: add_divide_distrib)
  then show ?thesis unfolding is_cents_def by blast
qed

lemma is_cents_diff: "is_cents x \<Longrightarrow> is_cents y \<Longrightarrow> is_cents (x - y)"
proof -
  assume "is_cents x" "is_cents y"
  then obtain a b :: int where "x = of_int a / 100" "y = of_int b / 100"
    by (auto simp: is_cents_def)
  then have "x - y = of_int (a - b) / 100" by (simp add: diff_divide_distrib)
  then show ?thesis unfolding is_cents_def by blast
qed


lemma py_round2_sum3: "py_round2 (py_round2 a + py_round2 c + py_round2 d) = py_round2 a + py_round2 c + py_round2 d"
  by (intro py_round2_id is_cents_add py_round2_cents)










lemma is_cents_0: "is_cents 0"
  unfolding is_cents_def by (rule exI [of _ 0]) simp


















section \<open>The amount parsers: signs\<close>

lemma round_half_even_nonneg: "0 \<le> x \<Longrightarrow> 0 \<le> round_half_even x"
  by (auto simp: round_half_even_def Let_def)

lemma py_round2_nonneg: "0 \<le> x \<Longrightarrow> 0 \<le> py_round2 x"
  by (simp add: py_round2_def round_half_even_nonneg)

lemma set_strip: "set (strip s) \<subseteq> set s"
proof -
  have "set (strip s) \<subseteq> set (dropWhile is_space s)"
    unfolding strip_def using set_dropWhileD by fastforce
  also have "\<dots> \<subseteq> set s" using set_dropWhileD by fastforce
  finally show ?thesis .
qed

lemma digit_val_nonneg: "is_digit c \<Longrightarrow> 0 \<le> digit_val c"
proof -
  assume "is_digit c"
  then have "48 \<le> (of_char c :: nat)" by (simp add: is_digit_def Let_def)
  moreover have "(of_char c :: int) = int (of_char c)" by (simp add: of_nat_of_char)
  ultimately show ?thesis by (simp add: digit_val_def)
qed

lemma foldl_digits_nonneg:
  "0 \<le> a \<Longrightarrow> list_all is_digit s \<Longrightarrow> 0 \<le> foldl (\<lambda>a c. 10 * a + digit_val c) a s"
  by (induction s arbitrary: a) (auto simp: digit_val_nonneg)

lemma digits_value_nonneg: "list_all is_digit s \<Longrightarrow> 0 \<le> digits_value s"
  unfolding digits_value_def by (rule foldl_digits_nonneg) simp_all

lemma float_decimal_nonneg:
  assumes "CHR ''-'' \<notin> set t" and "float_decimal t = Some f"
  shows "0 \<le> f"
proof -
  have "\<not> (strip t \<noteq> [] \<and> hd (strip t) = CHR ''-'')"
    using assms(1) set_strip [of t] by (cases "strip t") auto
  with assms(2) show ?thesis
    by (auto simp: float_decimal_def Let_def digits_value_nonneg split: if_splits)
qed

lemma parse_balance_rule:
  "parse_balance (Some s) = Some r \<Longrightarrow>
     \<exists>a. balance_amount s = Some a \<and> r = (if a < 0 then a else if has_dr s then - a else a)"
  by (auto simp: parse_balance_def balance_amount_def has_dr_def Let_def split: if_splits option.splits)

lemma parse_balance_dr_nonpos:
  assumes "parse_balance (Some s) = Some r" "has_dr s"
  shows "r \<le> 0"
proof -
  from parse_balance_rule [OF assms(1)] obtain a where
    "r = (if a < 0 then a else if has_dr s then - a else a)" by blast
  with assms(2) show ?thesis by (auto split: if_splits)
qed

lemma new_magnitude_nonneg:
  assumes "new_magnitude t = Some x"
  shows "0 \<le> x"
proof -
  define ct where "ct = filter is_numch (filter (\<lambda>c. c \<noteq> CHR '','' \<and> c \<noteq> CHR '' '')
      (map (\<lambda>c. if c = CHR '':'' \<or> c = CHR '';'' then CHR ''.'' else c) (remove_crdr_word False t)))"
  have m1: "CHR ''-'' \<notin> set ct"
    by (auto simp: ct_def is_numch_def is_digit_def Let_def)
  then have m2: "CHR ''-'' \<notin> set (filter (\<lambda>c. c \<noteq> CHR ''.'') ct)" by simp
  have n1: "0 \<le> f" if "float_decimal (filter (\<lambda>c. c \<noteq> CHR ''.'') ct) = Some f" for f
    by (rule float_decimal_nonneg [OF m2 that])
  have n2: "0 \<le> f" if "float_decimal ct = Some f" for f
    by (rule float_decimal_nonneg [OF m1 that])
  from assms have "new_magnitude t = Some x" .
  then show ?thesis
    unfolding new_magnitude_def Let_def ct_def [symmetric]
    by (auto split: if_splits option.splits dest!: n1 n2 intro!: py_round2_nonneg)
qed

lemma extract_amount_new_sign:
  assumes "extract_amount_new (Some s) = Some r"
  shows "if new_is_negative s then r \<le> 0 else 0 \<le> r"
  using assms unfolding extract_amount_new_def new_is_negative_def Let_def
  by (auto split: if_splits option.splits dest!: new_magnitude_nonneg)

text \<open>
  Claim C2. The token \<open>1,234.56DR\<close> is said to normalize to -1234.56, a DR marker
  forcing the result negative. \<open>extract_amount_new\<close>, the parser that reads the sign from
  a leading minus or a parenthesis, drops the DR marker without looking at it: on this
  token it returns +1234.56.
\<close>

theorem extract_amount_new_ignores_dr:
  "extract_amount_new (Some ''1,234.56DR'') = Some (123456 / 100)
   \<and> extract_amount_new (Some ''1,234.56DR'') \<noteq> Some (- (123456 / 100))"
  by code_simp

text \<open>
  Claim C2, as the code has it. \<open>parse_balance\<close>, the parser of the balance column,
  returns -1234.56 on \<open>1,234.56DR\<close>; it negates the amount it read exactly when the
  text holds DR and that amount is not negative, and returns an amount that a minus sign
  made negative as it is, so with DR the result is never positive. \<open>extract_amount_new\<close>
  takes its sign from a leading minus or a parenthesis only and negates once: its result
  is at most 0 when the sign test holds and at least 0 otherwise, whatever marker the
  text carries.
\<close>

theorem dr_sign_rule:
  "parse_balance (Some ''1,234.56DR'') = Some (- (123456 / 100))
   \<and> (\<forall>s r. parse_balance (Some s) = Some r \<longrightarrow>
         (\<exists>a. balance_amount s = Some a \<and> r = (if a < 0 then a else if has_dr s then - a else a))
         \<and> (has_dr s \<longrightarrow> r \<le> 0))
   \<and> (\<forall>s r. extract_amount_new (Some s) = Some r \<longrightarrow> (if new_is_negative s then r \<le> 0 else 0 \<le> r))"
proof (intro conjI allI impI)
  show "parse_balance (Some ''1,234.56DR'') = Some (- (123456 / 100))"
    by code_simp
next
  fix s r assume "parse_balance (Some s) = Some r"
  then show "\<exists>a. balance_amount s = Some a \<and> r = (if a < 0 then a else if has_dr s then - a else a)"
    by (rule parse_balance_rule)
next
  fix s r assume "parse_balance (Some s) = Some r" "has_dr s"
  then show "r \<le> 0" by (rule parse_balance_dr_nonpos)
next
  fix s r assume "extract_amount_new (Some s) = Some r"
  then show "if new_is_negative s then r \<le> 0 else 0 \<le> r"
    by (rule extract_amount_new_sign)
qed

theorem dr_sign_rule_witness:
  "parse_balance (Some ''-50 DR'') = Some (- 50) \<and> has_dr ''-50 DR''
   \<and> balance_amount ''-50 DR'' = Some (- 50)
   \<and> (\<exists>a. balance_amount ''-50 DR'' = Some a
          \<and> (- 50 :: rat) = (if a < 0 then a else if has_dr ''-50 DR'' then - a else a))
   \<and> extract_amount_new (Some ''(-5) DR'') = Some (- 5) \<and> new_is_negative ''(-5) DR''
   \<and> (if new_is_negative ''(-5) DR'' then (- 5 :: rat) \<le> 0 else (0 :: rat) \<le> - 5)"
proof -
  have p: "parse_balance (Some ''-50 DR'') = Some (- 50)" by code_simp
  have d: "has_dr ''-50 DR''" by code_simp
  have b: "balance_amount ''-50 DR'' = Some (- 50)" by code_simp
  have e: "extract_amount_new (Some ''(-5) DR'') = Some (- 5)" by code_simp
  have n: "new_is_negative ''(-5) DR''" by code_simp
  note t1 = dr_sign_rule [THEN conjunct2, THEN conjunct1, rule_format, OF p, THEN conjunct1]
  note t2 = dr_sign_rule [THEN conjunct2, THEN conjunct2, rule_format, OF e]
  show ?thesis
    by (intro conjI p d b e n t1 t2)
qed


section \<open>The amount parsers: dots\<close>


lemma is_digit_not_special:
  assumes "is_digit c"
  shows "c \<noteq> CHR ''.''" "c \<noteq> CHR ''-''" "c \<noteq> CHR '',''" "c \<noteq> CHR '' ''" "c \<noteq> CHR ''(''"
    "c \<noteq> CHR '':''" "c \<noteq> CHR '';''" "\<not> is_space c" "lower_char c = c" "upper_char c = c" "is_numch c"
  using assms by (auto simp: is_digit_def is_space_def lower_char_def upper_char_def is_numch_def Let_def)

lemma is_numch_cases: "is_numch c \<longleftrightarrow> is_digit c \<or> c = CHR ''.''"
  by (simp add: is_numch_def)

lemma is_numch_props:
  assumes "is_numch c"
  shows "c \<noteq> CHR ''-''" "c \<noteq> CHR '',''" "c \<noteq> CHR '' ''" "c \<noteq> CHR ''(''"
    "c \<noteq> CHR '':''" "c \<noteq> CHR '';''" "\<not> is_space c" "lower_char c = c" "upper_char c = c"
  using assms by (auto simp: is_numch_def is_digit_def is_space_def lower_char_def upper_char_def Let_def)

lemma numch_lower: "list_all is_numch s \<Longrightarrow> lower s = s"
  by (induction s) (auto simp: lower_def is_numch_props)

lemma numch_upper: "list_all is_numch s \<Longrightarrow> upper s = s"
  by (induction s) (auto simp: upper_def is_numch_props)

lemma dropWhile_none: "\<forall>c \<in> set s. \<not> P c \<Longrightarrow> dropWhile P s = s"
  by (cases s) auto

lemma numch_strip: "list_all is_numch s \<Longrightarrow> strip s = s"
  by (simp add: strip_def dropWhile_none list_all_iff is_numch_props)

lemma numch_not_crdr: "is_numch a \<Longrightarrow> lower [a, b] \<noteq> ''cr'' \<and> lower [a, b] \<noteq> ''dr''"
proof -
  assume a: "is_numch a"
  then have "lower_char a = a" by (simp add: is_numch_props)
  moreover have "\<not> is_numch CHR ''c''" "\<not> is_numch CHR ''d''"
    by (simp_all add: is_numch_def is_digit_def)
  ultimately show ?thesis using a by (auto simp: lower_def)
qed

lemma numch_remove_crdr: "list_all is_numch s \<Longrightarrow> remove_crdr s = s"
  by (induction s rule: remove_crdr.induct) (auto simp: numch_not_crdr)

lemma numch_remove_crdr_word: "list_all is_numch s \<Longrightarrow> remove_crdr_word pw s = s"
  by (induction pw s rule: remove_crdr_word.induct) (auto simp: numch_not_crdr)

lemma numch_filter: "list_all is_numch s \<Longrightarrow> filter (\<lambda>c. c \<noteq> CHR '','' \<and> c \<noteq> CHR '' '') s = s"
  by (induction s) (auto simp: is_numch_props)

lemma numch_map: "list_all is_numch s \<Longrightarrow>
    map (\<lambda>c. if c = CHR '':'' \<or> c = CHR '';'' then CHR ''.'' else c) s = s"
  by (induction s) (auto simp: is_numch_props)

lemma numch_filter_self: "list_all is_numch s \<Longrightarrow> filter is_numch s = s"
  by (induction s) auto

lemma numch_first_num: "list_all is_numch s \<Longrightarrow> s \<noteq> [] \<Longrightarrow> first_num s = Some s"
  by (cases s) (auto simp: first_num_def list_all_iff Let_def takeWhile_eq_all_conv)

lemma numch_first_signed_num: "list_all is_numch s \<Longrightarrow> s \<noteq> [] \<Longrightarrow> first_signed_num s = Some s"
  by (cases s) (auto simp: list_all_iff is_numch_props takeWhile_eq_all_conv)


lemma join_dots_numch: "digit_segs segs \<Longrightarrow> list_all is_numch (join_dots segs)"
  by (induction segs rule: join_dots.induct)
     (auto simp: digit_segs_def list_all_iff is_numch_def)

lemma split_on_ne: "split_on sep s \<noteq> []"
  by (induction s) (auto split: list.splits)

lemma split_on_nodot: "CHR ''.'' \<notin> set s \<Longrightarrow> split_on CHR ''.'' (s @ CHR ''.'' # t) = s # split_on CHR ''.'' t"
proof (induction s)
  case Nil
  then show ?case using split_on_ne [of "CHR ''.''" t] by (simp split: list.splits)
next
  case (Cons c s)
  then show ?case by (auto split: list.splits)
qed

lemma split_on_single: "CHR ''.'' \<notin> set s \<Longrightarrow> split_on CHR ''.'' s = [s]"
  by (induction s) (auto split: list.splits)

lemma digits_nodot: "list_all is_digit s \<Longrightarrow> CHR ''.'' \<notin> set s"
  by (auto simp: list_all_iff is_digit_def)

lemma split_join: "digit_segs segs \<Longrightarrow> segs \<noteq> [] \<Longrightarrow> split_on CHR ''.'' (join_dots segs) = segs"
proof (induction segs rule: join_dots.induct)
  case 1
  then show ?case by simp
next
  case (2 s)
  then show ?case by (simp add: digit_segs_def split_on_single digits_nodot)
next
  case (3 s t ss)
  then have "CHR ''.'' \<notin> set s" by (simp add: digit_segs_def digits_nodot)
  moreover from 3 have "split_on CHR ''.'' (join_dots (t # ss)) = t # ss"
    by (simp add: digit_segs_def)
  ultimately show ?case by (simp add: split_on_nodot)
qed

lemma join_dots_nonempty: "1 < length segs \<Longrightarrow> join_dots segs \<noteq> []"
  by (induction segs rule: join_dots.induct) auto

lemma join_dots_has_dot: "1 < length segs \<Longrightarrow> CHR ''.'' \<in> set (join_dots segs)"
  by (induction segs rule: join_dots.induct) auto

lemma filter_join: "digit_segs segs \<Longrightarrow> filter (\<lambda>c. c \<noteq> CHR ''.'') (join_dots segs) = concat segs"
proof (induction segs rule: join_dots.induct)
  case 1
  then show ?case by simp
next
  case (2 s)
  then have "\<forall>c \<in> set s. c \<noteq> CHR ''.''" by (auto simp: digit_segs_def dest: digits_nodot)
  then show ?case by (simp add: filter_id_conv)
next
  case (3 s t ss)
  then have "\<forall>c \<in> set s. c \<noteq> CHR ''.''" by (auto simp: digit_segs_def dest: digits_nodot)
  then have "filter (\<lambda>c. c \<noteq> CHR ''.'') s = s" by (simp add: filter_id_conv)
  with 3 show ?case by (simp add: digit_segs_def)
qed

lemma after_last_dot_app: "CHR ''.'' \<notin> set t \<Longrightarrow> after_last_dot (s @ CHR ''.'' # t) = t"
proof -
  assume "CHR ''.'' \<notin> set t"
  then have "\<And>c. c \<in> set (rev t) \<Longrightarrow> c \<noteq> CHR ''.''" by auto
  then have "takeWhile (\<lambda>c. c \<noteq> CHR ''.'') (rev t @ CHR ''.'' # rev s)
      = rev t @ takeWhile (\<lambda>c. c \<noteq> CHR ''.'') (CHR ''.'' # rev s)"
    by (rule takeWhile_append2)
  then show ?thesis by (simp add: after_last_dot_def)
qed

lemma after_last_dot_prefix: "CHR ''.'' \<in> set t \<Longrightarrow> after_last_dot (s @ t) = after_last_dot t"
proof -
  assume "CHR ''.'' \<in> set t"
  then have "CHR ''.'' \<in> set (rev t)" by simp
  then have "takeWhile (\<lambda>c. c \<noteq> CHR ''.'') (rev t @ rev s) = takeWhile (\<lambda>c. c \<noteq> CHR ''.'') (rev t)"
    by (intro takeWhile_append1 [of "CHR ''.''"]) simp_all
  then show ?thesis by (simp add: after_last_dot_def)
qed

lemma after_last_dot_join: "digit_segs segs \<Longrightarrow> 1 < length segs \<Longrightarrow> after_last_dot (join_dots segs) = last segs"
proof (induction segs rule: join_dots.induct)
  case 1
  then show ?case by simp
next
  case (2 s)
  then show ?case by simp
next
  case (3 s t ss)
  show ?case
  proof (cases ss)
    case Nil
    with 3 show ?thesis by (simp add: digit_segs_def after_last_dot_app digits_nodot)
  next
    case (Cons u us)
    with 3 have ih: "after_last_dot (join_dots (t # ss)) = last (t # ss)" by (simp add: digit_segs_def)
    have "CHR ''.'' \<in> set (join_dots (t # ss))" using Cons by (intro join_dots_has_dot) simp
    then have "after_last_dot ((s @ ''.'') @ join_dots (t # ss)) = after_last_dot (join_dots (t # ss))"
      by (rule after_last_dot_prefix)
    with ih show ?thesis by simp
  qed
qed

lemma float_decimal_digits:
  assumes "list_all is_digit s" "s \<noteq> []"
  shows "float_decimal s = Some (of_int (digits_value s))"
proof -
  have n: "list_all is_numch s" using assms(1) by (simp add: list_all_iff is_digit_not_special)
  have h: "hd s \<noteq> CHR ''-''" "hd s \<noteq> CHR ''+''"
    using assms by (cases s; auto simp: is_digit_def Let_def)+
  have t: "takeWhile (\<lambda>c. c \<noteq> CHR ''.'') s = s"
    using assms(1) by (simp add: takeWhile_eq_all_conv list_all_iff is_digit_not_special)
  show ?thesis using assms h
    by (simp add: float_decimal_def numch_strip [OF n] t Let_def)
qed

lemma float_decimal_point:
  assumes "list_all is_digit a" "list_all is_digit b" "a @ b \<noteq> []"
  shows "float_decimal (a @ CHR ''.'' # b) = Some (of_int (digits_value (a @ b)) / 10 ^ length b)"
proof -
  let ?s = "a @ CHR ''.'' # b"
  have n: "list_all is_numch ?s" using assms(1,2) by (auto simp: list_all_iff is_numch_def)
  have h: "hd ?s \<noteq> CHR ''-''" "hd ?s \<noteq> CHR ''+''"
    using assms(1) by (cases a; auto simp: is_digit_def Let_def)+
  have t: "takeWhile (\<lambda>c. c \<noteq> CHR ''.'') ?s = a"
    using assms(1) by (simp add: takeWhile_append2 list_all_iff is_digit_not_special)
  show ?thesis using assms h
    by (simp add: float_decimal_def numch_strip [OF n] t Let_def)
qed


lemma concat_butlast_last: "segs \<noteq> [] \<Longrightarrow> concat (butlast segs) @ last segs = concat segs"
  by (induction segs) auto

lemma digits_concat: "digit_segs segs \<Longrightarrow> list_all is_digit (concat segs)"
  by (auto simp: digit_segs_def list_all_iff)

lemma fix_dots_join:
  assumes "digit_segs segs" "2 < length segs"
  shows "fix_dots (join_dots segs) =
     (if length (last segs) = 3 then concat segs else concat (butlast segs) @ CHR ''.'' # last segs)"
proof -
  have "segs \<noteq> []" using assms(2) by auto
  then have "split_on CHR ''.'' (join_dots segs) = segs" using assms(1) by (simp add: split_join)
  then show ?thesis using assms(2) by (simp add: fix_dots_def Let_def)
qed

lemma float_fix_dots_join:
  assumes "digit_segs segs" "2 < length segs" "concat segs \<noteq> []"
  shows "float_decimal (fix_dots (join_dots segs)) =
     Some (if length (last segs) = 3 then of_int (digits_value (concat segs))
           else of_int (digits_value (concat segs)) / 10 ^ length (last segs))"
proof -
  have ne: "segs \<noteq> []" using assms(2) by auto
  have d: "list_all is_digit (concat segs)" using assms(1) by (rule digits_concat)
  have db: "list_all is_digit (concat (butlast segs))"
    using assms(1) by (auto simp: digit_segs_def list_all_iff dest: in_set_butlastD)
  have dl: "list_all is_digit (last segs)"
    using assms(1) ne by (auto simp: digit_segs_def)
  show ?thesis
  proof (cases "length (last segs) = 3")
    case True
    then show ?thesis using float_decimal_digits [OF d assms(3)]
      by (simp add: fix_dots_join [OF assms(1,2)])
  next
    case False
    have "concat (butlast segs) @ last segs \<noteq> []"
      using assms(3) by (simp add: concat_butlast_last [OF ne])
    from float_decimal_point [OF db dl this] False show ?thesis
      by (simp add: fix_dots_join [OF assms(1,2)] concat_butlast_last [OF ne])
  qed
qed

lemma contains_in_set:
  assumes "contains (x # xs) s"
  shows "x \<in> set s"
proof -
  from assms obtain i where "take (length (x # xs)) (drop i s) = x # xs"
    by (auto simp: contains_def)
  then have "x \<in> set (take (length (x # xs)) (drop i s))" by simp
  then show ?thesis by (meson in_set_dropD in_set_takeD)
qed

lemma numch_no_dr: "list_all is_numch s \<Longrightarrow> \<not> contains ''DR'' s"
proof
  assume n: "list_all is_numch s" and "contains ''DR'' s"
  then have "CHR ''D'' \<in> set s" by (rule_tac contains_in_set)
  with n have "is_numch CHR ''D''" by (simp add: list_all_iff)
  then show False by (simp add: is_numch_def is_digit_def)
qed

lemma extract_amount_join:
  assumes "digit_segs segs" "2 < length segs" "concat segs \<noteq> []"
  shows "extract_amount (Some (join_dots segs)) =
     Some (if length (last segs) = 3 then of_int (digits_value (concat segs))
           else of_int (digits_value (concat segs)) / 10 ^ length (last segs))"
proof -
  let ?s = "join_dots segs"
  have n: "list_all is_numch ?s" using assms(1) by (rule join_dots_numch)
  have ne: "?s \<noteq> []" using assms(2) by (intro join_dots_nonempty) simp
  have "\<not> is_numch CHR ''-''" by (simp add: is_numch_def is_digit_def)
  with n have m: "CHR ''-'' \<notin> set ?s" by (auto simp: list_all_iff)
  show ?thesis
    by (simp add: extract_amount_def numch_lower [OF n] numch_strip [OF n] m numch_remove_crdr [OF n]
        numch_filter [OF n] numch_first_num [OF n ne] float_fix_dots_join [OF assms] Let_def)
qed

lemma parse_balance_join:
  assumes "digit_segs segs" "2 < length segs" "concat segs \<noteq> []"
  shows "parse_balance (Some (join_dots segs)) =
     Some (if length (last segs) = 3 then of_int (digits_value (concat segs))
           else of_int (digits_value (concat segs)) / 10 ^ length (last segs))"
proof -
  let ?s = "join_dots segs"
  have n: "list_all is_numch ?s" using assms(1) by (rule join_dots_numch)
  have ne: "?s \<noteq> []" using assms(2) by (intro join_dots_nonempty) simp
  have "\<not> is_numch CHR ''N''" by (simp add: is_numch_def is_digit_def)
  with n have x: "?s \<noteq> ''NAN''" "?s \<noteq> ''NONE''" by (auto simp: list_all_iff)
  have v: "0 \<le> (of_int (digits_value (concat segs)) :: rat)"
    using digits_value_nonneg [OF digits_concat [OF assms(1)]] by simp
  then have v2: "\<not> (of_int (digits_value (concat segs)) :: rat) / 10 ^ length (last segs) < 0"
    by (simp add: not_less)
  from v have v1: "\<not> (of_int (digits_value (concat segs)) :: rat) < 0" by (simp add: not_less)
  show ?thesis using ne x v1 v2
    by (simp add: parse_balance_def numch_upper [OF n] numch_strip [OF n] numch_no_dr [OF n]
        numch_remove_crdr [OF n] numch_filter [OF n] numch_first_signed_num [OF n ne]
        float_fix_dots_join [OF assms] Let_def)
qed


lemma is_cents_of_int: "is_cents (of_int k)" "is_cents (of_int k / 10)" "is_cents (of_int k / 100)"
proof -
  show "is_cents (of_int k)" unfolding is_cents_def by (rule exI [of _ "100 * k"]) simp
  show "is_cents (of_int k / 10)" unfolding is_cents_def by (rule exI [of _ "10 * k"]) simp
  show "is_cents (of_int k / 100)" unfolding is_cents_def by (rule exI [of _ k]) simp
qed

lemma new_magnitude_join:
  assumes "digit_segs segs" "1 < length segs" "concat segs \<noteq> []"
  shows "new_magnitude (join_dots segs) =
     Some (of_int (digits_value (concat segs)) /
        (if length (last segs) = 1 then 10 else if 2 \<le> length (last segs) then 100 else 1))"
proof -
  let ?s = "join_dots segs"
  have n: "list_all is_numch ?s" using assms(1) by (rule join_dots_numch)
  have ne: "?s \<noteq> []" using assms(2) by (rule join_dots_nonempty)
  have dot: "CHR ''.'' \<in> set ?s" using assms(2) by (rule join_dots_has_dot)
  have seg_ne: "segs \<noteq> []" using assms(2) by auto
  have dl: "list_all is_digit (last segs)" using assms(1) seg_ne by (auto simp: digit_segs_def)
  then have fl: "filter is_digit (last segs) = last segs" by (simp add: list_all_iff filter_id_conv)
  have f: "float_decimal (concat segs) = Some (of_int (digits_value (concat segs)))"
    by (rule float_decimal_digits [OF digits_concat [OF assms(1)] assms(3)])
  show ?thesis
    using ne dot assms(3)
    by (simp add: new_magnitude_def numch_filter_self [OF n] numch_remove_crdr_word [OF n] numch_map [OF n]
        numch_filter [OF n] after_last_dot_join [OF assms(1,2)] fl filter_join [OF assms(1)] f Let_def
        py_round2_id is_cents_of_int del: filter_filter)
qed

lemma extract_amount_new_join:
  assumes "digit_segs segs" "1 < length segs" "concat segs \<noteq> []"
  shows "extract_amount_new (Some (join_dots segs)) =
     Some (of_int (digits_value (concat segs)) /
        (if length (last segs) = 1 then 10 else if 2 \<le> length (last segs) then 100 else 1))"
proof -
  let ?s = "join_dots segs"
  have n: "list_all is_numch ?s" using assms(1) by (rule join_dots_numch)
  have ne: "?s \<noteq> []" using assms(2) by (rule join_dots_nonempty)
  have "\<not> is_numch CHR ''-''" "\<not> is_numch CHR ''(''" by (simp_all add: is_numch_def is_digit_def)
  with n have m: "CHR ''-'' \<notin> set ?s" "CHR ''('' \<notin> set ?s" by (auto simp: list_all_iff)
  then have h: "hd ?s \<noteq> CHR ''-''" using ne by (cases ?s) auto
  show ?thesis using ne m h
    by (simp add: extract_amount_new_def numch_strip [OF n] new_magnitude_join [OF assms] Let_def)
qed

text \<open>
  Claim C5. The token \<open>4.54.554\<close> is said to normalize to 454554.00, every dot being a
  thousands separator when the last segment has three digits. \<open>extract_amount_new\<close>, the
  parser with the decimal-shift rule, removes every dot and divides by 100 as soon as two
  digits or more follow the last dot: on this token it returns 4545.54.
\<close>

theorem extract_amount_new_shifts_grouping:
  "extract_amount_new (Some ''4.54.554'') = Some (454554 / 100)
   \<and> extract_amount_new (Some ''4.54.554'') \<noteq> Some 454554"
  by code_simp

text \<open>
  Claim C5, as the code has it. \<open>extract_amount\<close> and \<open>parse_balance\<close> return 454554 on
  \<open>4.54.554\<close>. On a token of three or more digit segments separated by dots they
  concatenate all the digits when the last segment has exactly three of them, and
  otherwise keep the last dot alone as the decimal point. \<open>extract_amount_new\<close> never
  groups: it concatenates the digits and divides by 10 when one digit follows the last
  dot, by 100 when two or more do, and by nothing when none does.
\<close>

theorem multi_dot_rule:
  "extract_amount (Some ''4.54.554'') = Some 454554
   \<and> parse_balance (Some ''4.54.554'') = Some 454554
   \<and> (\<forall>segs. 2 < length segs \<and> digit_segs segs \<and> concat segs \<noteq> [] \<longrightarrow>
         extract_amount (Some (join_dots segs)) =
           Some (if length (last segs) = 3 then of_int (digits_value (concat segs))
                 else of_int (digits_value (concat segs)) / 10 ^ length (last segs))
         \<and> parse_balance (Some (join_dots segs)) = extract_amount (Some (join_dots segs))
         \<and> extract_amount_new (Some (join_dots segs)) =
           Some (of_int (digits_value (concat segs)) /
             (if length (last segs) = 1 then 10 else if 2 \<le> length (last segs) then 100 else 1)))"
proof (intro conjI allI impI)
  show "extract_amount (Some ''4.54.554'') = Some 454554" by code_simp
  show "parse_balance (Some ''4.54.554'') = Some 454554" by code_simp
next
  fix segs assume a: "2 < length segs \<and> digit_segs segs \<and> concat segs \<noteq> []"
  then have h: "digit_segs segs" "2 < length segs" "concat segs \<noteq> []" "1 < length segs"
    by simp_all
  show "extract_amount (Some (join_dots segs)) =
           Some (if length (last segs) = 3 then of_int (digits_value (concat segs))
                 else of_int (digits_value (concat segs)) / 10 ^ length (last segs))"
    by (rule extract_amount_join [OF h(1-3)])
  show "parse_balance (Some (join_dots segs)) = extract_amount (Some (join_dots segs))"
    by (simp only: extract_amount_join [OF h(1-3)] parse_balance_join [OF h(1-3)])
  show "extract_amount_new (Some (join_dots segs)) =
           Some (of_int (digits_value (concat segs)) /
             (if length (last segs) = 1 then 10 else if 2 \<le> length (last segs) then 100 else 1))"
    by (rule extract_amount_new_join [OF h(1) h(4) h(3)])
qed

theorem multi_dot_rule_witness:
  "join_dots [''5'', ''328'', ''28''] = ''5.328.28''
   \<and> 2 < length [''5'', ''328'', ''28''] \<and> digit_segs [''5'', ''328'', ''28'']
   \<and> concat [''5'', ''328'', ''28''] \<noteq> []
   \<and> extract_amount (Some (join_dots [''5'', ''328'', ''28''])) = Some (532828 / 100)
   \<and> parse_balance (Some (join_dots [''5'', ''328'', ''28''])) = Some (532828 / 100)
   \<and> extract_amount_new (Some (join_dots [''5'', ''328'', ''28''])) = Some (532828 / 100)"
proof -
  let ?S = "[''5'', ''328'', ''28'']"
  have j: "join_dots ?S = ''5.328.28''" by simp
  have h1: "2 < length ?S" by simp
  have h2: "digit_segs ?S" by code_simp
  have h3: "concat ?S \<noteq> []" by simp
  note t = multi_dot_rule [THEN conjunct2, THEN conjunct2, rule_format, of ?S,
      OF conjI [OF h1 conjI [OF h2 h3]]]
  have v1: "(if length (last ?S) = 3 then of_int (digits_value (concat ?S))
             else of_int (digits_value (concat ?S)) / 10 ^ length (last ?S)) = (532828 / 100 :: rat)"
    by code_simp
  have v2: "of_int (digits_value (concat ?S)) /
             (if length (last ?S) = 1 then 10 else if 2 \<le> length (last ?S) then 100 else 1)
            = (532828 / 100 :: rat)"
    by code_simp
  from t v1 have e1: "extract_amount (Some (join_dots ?S)) = Some (532828 / 100)" by simp
  from t e1 have e2: "parse_balance (Some (join_dots ?S)) = Some (532828 / 100)" by simp
  from t v2 have e3: "extract_amount_new (Some (join_dots ?S)) = Some (532828 / 100)" by simp
  show ?thesis by (intro conjI j h1 h2 h3 e1 e2 e3)
qed

section \<open>Rotation\<close>

text \<open>
  Claim C7. When the direction is descending, \<open>rotate_if_descending\<close> reverses the whole
  sequence of rows: row \<open>i\<close> of the result is row \<open>n - 1 - i\<close> of the frame with its date,
  value date and other cells together, so row 0 is the former last row, and the direction
  it returns is ascending. The direction \<open>process_all_dates\<close> holds after the rotation is
  ascending for every frame.
\<close>

theorem rotation_reverses_rows:
  "rotate_if_descending df Descending = (df\<lparr>frows := rev (frows df)\<rparr>, Ascending)
   \<and> length (frows (fst (rotate_if_descending df Descending))) = length (frows df)
   \<and> (\<forall>i < length (frows df).
         frows (fst (rotate_if_descending df Descending)) ! i = frows df ! (length (frows df) - 1 - i))
   \<and> (frows df \<noteq> [] \<longrightarrow> frows (fst (rotate_if_descending df Descending)) ! 0 = last (frows df))
   \<and> snd (repair lib df) = Ascending"
proof (intro conjI allI impI)
  show "rotate_if_descending df Descending = (df\<lparr>frows := rev (frows df)\<rparr>, Ascending)"
    by (simp add: rotate_if_descending_def)
  show "length (frows (fst (rotate_if_descending df Descending))) = length (frows df)"
    by (simp add: rotate_if_descending_def)
next
  fix i assume "i < length (frows df)"
  then show "frows (fst (rotate_if_descending df Descending)) ! i = frows df ! (length (frows df) - 1 - i)"
    by (simp add: rotate_if_descending_def rev_nth)
next
  assume "frows df \<noteq> []"
  then show "frows (fst (rotate_if_descending df Descending)) ! 0 = last (frows df)"
    by (simp add: rotate_if_descending_def rev_nth last_conv_nth)
next
  have r: "snd (rotate_if_descending d order) = Ascending" for d order
    by (cases order) (simp_all add: rotate_if_descending_def)
  show "snd (repair lib df) = Ascending"
    using r [of "fst (date_correction lib (parse_columns lib df))" "snd (date_correction lib (parse_columns lib df))"]
    by (simp add: repair_def Let_def split_beta)
qed

theorem rotation_reverses_rows_witness:
  "frows descending_ledger \<noteq> []
   \<and> frows (fst (rotate_if_descending descending_ledger Descending)) ! 0
       = \<lparr>xn_date = Some ''01/01/2024'', value_date = None, others = [Txt ''a'']\<rparr>
   \<and> frows (fst (rotate_if_descending descending_ledger Descending)) ! 2
       = \<lparr>xn_date = Some ''03/01/2024'', value_date = None, others = [Txt ''c'']\<rparr>
   \<and> snd (rotate_if_descending descending_ledger Descending) = Ascending"
proof -
  note t = rotation_reverses_rows [of descending_ledger no_library]
  have ne: "frows descending_ledger \<noteq> []" by (simp add: descending_ledger_def)
  have l: "last (frows descending_ledger) = \<lparr>xn_date = Some ''01/01/2024'', value_date = None, others = [Txt ''a'']\<rparr>"
    by (simp add: descending_ledger_def)
  have "(2::nat) < length (frows descending_ledger)" by (simp add: descending_ledger_def)
  with t have "frows (fst (rotate_if_descending descending_ledger Descending)) ! 2
      = frows descending_ledger ! (length (frows descending_ledger) - 1 - 2)" by blast
  then have r2: "frows (fst (rotate_if_descending descending_ledger Descending)) ! 2
      = \<lparr>xn_date = Some ''03/01/2024'', value_date = None, others = [Txt ''c'']\<rparr>"
    by (simp add: descending_ledger_def)
  from t ne have "frows (fst (rotate_if_descending descending_ledger Descending)) ! 0 = last (frows descending_ledger)"
    by blast
  with l have r0: "frows (fst (rotate_if_descending descending_ledger Descending)) ! 0
      = \<lparr>xn_date = Some ''01/01/2024'', value_date = None, others = [Txt ''a'']\<rparr>" by simp
  from t have s: "snd (rotate_if_descending descending_ledger Descending) = Ascending" by simp
  show ?thesis by (intro conjI ne r0 r2 s)
qed

section \<open>The parser on a bare year\<close>

text \<open>
  Claim C6. Every result of the parser is said to be a string \<open>DD/MM/YYYY\<close> or absent,
  also for a token that is a bare year of four digits. Strategy 3 returns such a token
  as it is: \<open>2024\<close> is parsed to \<open>2024\<close>, which is neither.
\<close>

theorem bare_year_is_returned:
  "parse_custom_date no_library (Some ''2024'') = Some ''2024''
   \<and> \<not> date_shape ''2024''"
  by code_simp

end
